theory Spec2Isabelle
  imports Main
begin

section \<open>Values of the host language\<close>

text \<open>
  The SDK (\<^verbatim>\<open>src/sdk\<close>) and the MCP server (\<^verbatim>\<open>src/kaiafun-mcp-server.ts\<close>) are
  TypeScript. Data that reaches the program from outside (HTTP response bodies, tool
  arguments) is untyped at run time, so it is modelled by a datatype of JavaScript values.
  An object is the list of its own properties, each key at most once.
  Strings are lists of characters; the model is exact on ASCII text.
\<close>

datatype js_value =
    JUndefined
  | JNull
  | JBool bool
  | JNum int
  | JBigInt int
  | JStr string
  | JObj "(string \<times> js_value) list"

text \<open>
  Exceptions. \<open>Error m\<close> is \<^verbatim>\<open>new Error(m)\<close> thrown by the repository's own code,
  \<open>TypeError\<close> is what the runtime throws when a property of \<^verbatim>\<open>null\<close> or
  \<^verbatim>\<open>undefined\<close> is read, and \<open>LibError m\<close> is any rejection coming out of an
  external collaborator (viem, axios).
\<close>

datatype exn =
    Error string
  | TypeError
  | LibError string

text \<open>
  Reading a property \<^verbatim>\<open>v.k\<close> (also by destructuring): throws on \<^verbatim>\<open>null\<close> and
  \<^verbatim>\<open>undefined\<close>, gives \<^verbatim>\<open>undefined\<close> for a key an object does not have, and for
  the keys read in this program (\<^verbatim>\<open>url\<close>, \<^verbatim>\<open>hash\<close>, \<^verbatim>\<open>tokenAddress\<close>) gives
  \<^verbatim>\<open>undefined\<close> on every primitive.
\<close>

fun get_prop :: "js_value \<Rightarrow> string \<Rightarrow> exn + js_value" where
  "get_prop JUndefined k = Inl TypeError"
| "get_prop JNull k = Inl TypeError"
| "get_prop (JObj props) k = Inr (case map_of props k of None \<Rightarrow> JUndefined | Some v \<Rightarrow> v)"
| "get_prop v k = Inr JUndefined"

text \<open>\<^verbatim>\<open>String.prototype.toLowerCase\<close> on ASCII text.\<close>

definition upper_letters :: string where
  "upper_letters = ''ABCDEFGHIJKLMNOPQRSTUVWXYZ''"

definition lower_letters :: string where
  "lower_letters = ''abcdefghijklmnopqrstuvwxyz''"

definition toLowerCase_char :: "char \<Rightarrow> char" where
  "toLowerCase_char c =
     (case map_of (zip upper_letters lower_letters) c of None \<Rightarrow> c | Some l \<Rightarrow> l)"

definition toLowerCase :: "string \<Rightarrow> string" where
  "toLowerCase s = map toLowerCase_char s"

definition is_upper :: "char \<Rightarrow> bool" where
  "is_upper c = (c \<in> set upper_letters)"

section \<open>Contract interface definitions (\<^verbatim>\<open>sdk/abi.ts\<close>)\<close>

record abi_param =
  indexed :: "bool option"
  internalType :: string
  param_name :: string
  param_type :: string

datatype abi_item =
    AbiFunction (abi_name: string) (inputs: "abi_param list") (outputs: "abi_param list")
      (stateMutability: string)
  | AbiEvent (abi_name: string) (inputs: "abi_param list") (anonymous: bool)

definition fparam :: "string \<Rightarrow> string \<Rightarrow> string \<Rightarrow> abi_param" where
  "fparam it n t = \<lparr>indexed = None, internalType = it, param_name = n, param_type = t\<rparr>"

definition eparam :: "bool \<Rightarrow> string \<Rightarrow> string \<Rightarrow> string \<Rightarrow> abi_param" where
  "eparam ix it n t = \<lparr>indexed = Some ix, internalType = it, param_name = n, param_type = t\<rparr>"

definition buyWithETH :: abi_item where
  "buyWithETH = AbiFunction ''buyWithETH''
     [fparam ''address'' ''_tokenAddress'' ''address'',
      fparam ''uint256'' ''_minTokenAmount'' ''uint256'']
     [] ''payable''"

definition listWithETH :: abi_item where
  "listWithETH = AbiFunction ''listWithETH''
     [fparam ''address'' ''_wethAddress'' ''address'',
      fparam ''string'' ''_name'' ''string'',
      fparam ''string'' ''_symbol'' ''string'',
      fparam ''string'' ''_metadataHash'' ''string'']
     [] ''payable''"

definition sell :: abi_item where
  "sell = AbiFunction ''sell''
     [fparam ''address'' ''_tokenAddress'' ''address'',
      fparam ''uint256'' ''_tokenAmount'' ''uint256'',
      fparam ''uint256'' ''_minBaseTokenAmount'' ''uint256'',
      fparam ''bool'' ''_isOutputETH'' ''bool'']
     [fparam ''uint256'' ''_baseTokenAfterFee'' ''uint256'']
     ''nonpayable''"

definition TradeEvent :: abi_item where
  "TradeEvent = AbiEvent ''Trade''
     [eparam True ''address'' ''tokenAddress'' ''address'',
      eparam True ''address'' ''sender'' ''address'',
      eparam False ''uint256'' ''baseIn'' ''uint256'',
      eparam False ''uint256'' ''tokenIn'' ''uint256'',
      eparam False ''uint256'' ''baseOut'' ''uint256'',
      eparam False ''uint256'' ''tokenOut'' ''uint256'',
      eparam False ''uint256'' ''baseFee'' ''uint256'',
      eparam False ''address'' ''instrument'' ''address'']
     False"

definition ListEvent :: abi_item where
  "ListEvent = AbiEvent ''List''
     [eparam True ''address'' ''creator'' ''address'',
      eparam True ''address'' ''tokenAddress'' ''address'',
      eparam True ''address'' ''baseTokenAddress'' ''address'',
      eparam False ''string'' ''name'' ''string'',
      eparam False ''string'' ''symbol'' ''string'',
      eparam False ''string'' ''metadataHash'' ''string'']
     False"

section \<open>Chain descriptor (\<^verbatim>\<open>sdk/chain.ts\<close>)\<close>

record chain =
  chain_id :: int
  chain_name :: string
  decimals :: nat
  currency_symbol :: string
  rpc_url :: string

definition kaiaMainnet :: chain where
  "kaiaMainnet = \<lparr>chain_id = 8217, chain_name = ''Kaia'', decimals = 18,
     currency_symbol = ''KAIA'', rpc_url = ''https://public-en.node.kaia.io''\<rparr>"

section \<open>Receipts and event extraction (\<^verbatim>\<open>sdk/utils.ts\<close>)\<close>

text \<open>
  A receipt carries an ordered sequence of logs besides fields the extraction never reads.
  A decoded event is what viem's \<^verbatim>\<open>decodeEventLog\<close> returns: the event's name and its
  arguments.
\<close>

record log_entry =
  log_address :: string
  data :: string
  topics :: "string list"
  logIndex :: nat

datatype tx_status = Success | Reverted

record receipt =
  status :: tx_status
  transactionHash :: string
  blockNumber :: nat
  logs :: "log_entry list"

record decoded_event =
  eventName :: string
  event_args :: "(string \<times> js_value) list"

text \<open>
  \<^verbatim>\<open>decodeEventLog({ abi, data, topics })\<close> belongs to viem; it is a parameter of the
  model. It returns a decoded event or throws.
\<close>

type_synonym decoder = "abi_item list \<Rightarrow> string \<Rightarrow> string list \<Rightarrow> exn + decoded_event"

text \<open>
  The callback of \<^verbatim>\<open>.map\<close>: the \<^verbatim>\<open>try\<close>/\<^verbatim>\<open>catch\<close> turns a throw into
  \<^verbatim>\<open>undefined\<close>.
\<close>

definition try_decode :: "decoder \<Rightarrow> abi_item list \<Rightarrow> log_entry \<Rightarrow> decoded_event option" where
  "try_decode decodeEventLog abi log =
     (case decodeEventLog abi (data log) (topics log) of
        Inl e \<Rightarrow> None
      | Inr d \<Rightarrow> Some d)"

text \<open>
  \<^verbatim>\<open>receipt?.logs.map(...).find((log) => log?.eventName === eventName)\<close>.
  The receipt may be absent (\<^verbatim>\<open>void\<close>) and the requested name may be
  \<^verbatim>\<open>undefined\<close>; \<^verbatim>\<open>log?.eventName\<close> of an entry that did not decode is
  \<^verbatim>\<open>undefined\<close>. \<^verbatim>\<open>find\<close> returns the entry itself, so finding an undecoded
  entry and finding nothing are the same result, \<^verbatim>\<open>undefined\<close>.
\<close>

definition getEventFromReceipt ::
  "decoder \<Rightarrow> receipt option \<Rightarrow> abi_item list \<Rightarrow> string option \<Rightarrow> decoded_event option" where
  "getEventFromReceipt decodeEventLog receipt abi name =
     (case receipt of
        None \<Rightarrow> None
      | Some r \<Rightarrow>
          (case find (\<lambda>log. map_option eventName log = name)
                  (map (try_decode decodeEventLog abi) (logs r)) of
             None \<Rightarrow> None
           | Some log \<Rightarrow> log))"

text \<open>
  The same function with the ambient state of the runtime made explicit. The decoder is
  the only thing extraction calls; here it may read the state and change it, also when
  it throws. \<^verbatim>\<open>.map\<close> calls it once for every log, in log order, before \<^verbatim>\<open>.find\<close>
  looks at the first result.
\<close>

type_synonym 's stateful_decoder =
  "'s \<Rightarrow> abi_item list \<Rightarrow> string \<Rightarrow> string list \<Rightarrow> (exn + decoded_event) \<times> 's"

fun decode_logs ::
  "'s stateful_decoder \<Rightarrow> abi_item list \<Rightarrow> log_entry list \<Rightarrow> 's \<Rightarrow> decoded_event option list \<times> 's" where
  "decode_logs decodeEventLog abi [] s = ([], s)"
| "decode_logs decodeEventLog abi (log # rest) s =
     (case decodeEventLog s abi (data log) (topics log) of
        (res, s') \<Rightarrow>
          (case decode_logs decodeEventLog abi rest s' of
             (ds, s'') \<Rightarrow> ((case res of Inl e \<Rightarrow> None | Inr d \<Rightarrow> Some d) # ds, s'')))"

definition getEventFromReceipt_in ::
  "'s stateful_decoder \<Rightarrow> 's \<Rightarrow> receipt option \<Rightarrow> abi_item list \<Rightarrow> string option
     \<Rightarrow> decoded_event option \<times> 's" where
  "getEventFromReceipt_in decodeEventLog s receipt abi name =
     (case receipt of
        None \<Rightarrow> (None, s)
      | Some r \<Rightarrow>
          (case decode_logs decodeEventLog abi (logs r) s of
             (ds, s') \<Rightarrow>
               ((case find (\<lambda>log. map_option eventName log = name) ds of
                   None \<Rightarrow> None
                 | Some log \<Rightarrow> log), s')))"

section \<open>External collaborators\<close>

text \<open>
  Everything the client reaches over the network is a parameter of the model: the balance
  query, transaction submission and the wait for inclusion (viem), the HTTP endpoint
  behind axios, the log decoder, and the clock. Each call either returns or throws.
  The two contract addresses come from \<^verbatim>\<open>sdk/constants.ts\<close>, which is not part of the
  sources at hand, so they are parameters as well.
\<close>

record constants =
  KAIAFUN_CORE_ADDRESS :: string
  WETH_ADDRESS :: string

record upload_file =
  file_name :: string
  file_type :: string
  file_bytes :: "nat list"

record write_request =
  address :: string
  abi :: "abi_item list"
  functionName :: string
  args :: "js_value list"
  attached_value :: "int option"

datatype http_body = JsonBody js_value | FileBody upload_file

datatype http_outcome = NetworkFailure | HttpResponse nat js_value

record env =
  getBalance :: "string \<Rightarrow> exn + int"
  http_post :: "string \<Rightarrow> http_body \<Rightarrow> (string \<times> string) list \<Rightarrow> http_outcome"
  writeContract :: "write_request \<Rightarrow> exn + string"
  waitForTransactionReceipt :: "string \<Rightarrow> exn + receipt"
  decodeEventLog :: decoder
  Date_now :: nat

text \<open>
  The calls a run makes, in order. A run is the list of its calls together with what it
  returns or throws.
\<close>

datatype effect =
    GetBalance string
  | HttpPost string http_body "(string \<times> string) list"
  | WriteContract write_request
  | WaitForTransactionReceipt string
  | ConsoleError string

type_synonym 'a io = "effect list \<times> (exn + 'a)"

definition io_return :: "'a \<Rightarrow> 'a io" where
  "io_return x = ([], Inr x)"

definition io_throw :: "exn \<Rightarrow> 'a io" where
  "io_throw e = ([], Inl e)"

definition io_lift :: "exn + 'a \<Rightarrow> 'a io" where
  "io_lift r = ([], r)"

definition io_call :: "effect \<Rightarrow> exn + 'a \<Rightarrow> 'a io" where
  "io_call eff r = ([eff], r)"

definition io_bind :: "'a io \<Rightarrow> ('a \<Rightarrow> 'b io) \<Rightarrow> 'b io" where
  "io_bind m f =
     (case m of
        (t, Inl e) \<Rightarrow> (t, Inl e)
      | (t, Inr x) \<Rightarrow> (case f x of (t', r) \<Rightarrow> (t @ t', r)))"

text \<open>
  \<^verbatim>\<open>axios.post(url, body, { headers })\<close> destructured to its \<^verbatim>\<open>data\<close>: axios rejects
  on a transport failure and on a status outside 200..299, and otherwise resolves with
  the response body as \<^verbatim>\<open>data\<close> (an empty body is the empty string).
\<close>

definition axios_post :: "env \<Rightarrow> string \<Rightarrow> http_body \<Rightarrow> (string \<times> string) list \<Rightarrow> js_value io" where
  "axios_post env url body headers =
     io_call (HttpPost url body headers)
       (case http_post env url body headers of
          NetworkFailure \<Rightarrow> Inl (LibError ''Network Error'')
        | HttpResponse st d \<Rightarrow>
            if 200 \<le> st \<and> st < 300 then Inr d
            else Inl (LibError ''Request failed with status code''))"

text \<open>
  \<^verbatim>\<open>parseEther('10')\<close>: ten units of the native currency in its smallest unit
  (18 decimals, \<^verbatim>\<open>1 KAIA = 10^18 wei\<close>).
\<close>

definition parseEther_10 :: int where
  "parseEther_10 = 10 * 10 ^ 18"

section \<open>\<^verbatim>\<open>JSON.stringify\<close> on flat objects\<close>

definition digit_char :: "nat \<Rightarrow> char" where
  "digit_char d = ''0123456789'' ! d"

fun show_nat :: "nat \<Rightarrow> string" where
  "show_nat n = (if n < 10 then [digit_char n] else show_nat (n div 10) @ [digit_char (n mod 10)])"

declare show_nat.simps [simp del]

definition show_int :: "int \<Rightarrow> string" where
  "show_int i = (if i < 0 then CHR ''-'' # show_nat (nat (- i)) else show_nat (nat i))"

definition hex_char :: "nat \<Rightarrow> char" where
  "hex_char d = ''0123456789abcdef'' ! d"

definition JSON_escape_char :: "char \<Rightarrow> string" where
  "JSON_escape_char c =
     (let n = (of_char c :: nat) in
      if n = 34 then [CHR 0x5C, CHR 0x22]
      else if n = 92 then [CHR 0x5C, CHR 0x5C]
      else if n = 8 then [CHR 0x5C, CHR ''b'']
      else if n = 9 then [CHR 0x5C, CHR ''t'']
      else if n = 10 then [CHR 0x5C, CHR ''n'']
      else if n = 12 then [CHR 0x5C, CHR ''f'']
      else if n = 13 then [CHR 0x5C, CHR ''r'']
      else if n < 32 then [CHR 0x5C, CHR ''u'', CHR ''0'', CHR ''0'', hex_char (n div 16), hex_char (n mod 16)]
      else [c])"

definition JSON_quote :: "string \<Rightarrow> string" where
  "JSON_quote s = [CHR 0x22] @ concat (map JSON_escape_char s) @ [CHR 0x22]"

text \<open>
  The text of a property value; \<^verbatim>\<open>undefined\<close> has none and its property is left out.
  The objects this program serialises hold strings and one number only.
\<close>

fun JSON_primitive :: "js_value \<Rightarrow> string option" where
  "JSON_primitive (JStr s) = Some (JSON_quote s)"
| "JSON_primitive (JNum n) = Some (show_int n)"
| "JSON_primitive (JBool b) = Some (if b then ''true'' else ''false'')"
| "JSON_primitive JNull = Some ''null''"
| "JSON_primitive v = None"

fun join_comma :: "string list \<Rightarrow> string" where
  "join_comma [] = []"
| "join_comma [x] = x"
| "join_comma (x # y # ys) = x @ '','' @ join_comma (y # ys)"

definition JSON_stringify_object :: "(string \<times> js_value) list \<Rightarrow> string" where
  "JSON_stringify_object props =
     ''{'' @ join_comma (List.map_filter
        (\<lambda>(k, v). map_option (\<lambda>s. JSON_quote k @ '':'' @ s) (JSON_primitive v)) props) @ ''}''"

section \<open>Trading client (\<^verbatim>\<open>sdk/client.ts\<close>)\<close>

record metadata =
  name :: string
  symbol :: string
  description :: string
  imageURL :: string
  twitter :: "string option"
  telegram :: "string option"
  website :: "string option"

text \<open>
  A client holds the wallet client's chain, which the guards read as
  \<^verbatim>\<open>this.walletClient.chain?.id\<close> and which may therefore be absent, and the account.
\<close>

record client =
  wallet_chain :: "chain option"
  account_address :: string

record trade_result =
  trade_receipt :: receipt
  tradeEvent :: "decoded_event option"

record list_result =
  list_receipt :: receipt
  listEvent :: "decoded_event option"

definition API_BASE_URL :: string where
  "API_BASE_URL = ''https://kaiafun.io/api''"

definition unsupported_chain :: "client \<Rightarrow> bool" where
  "unsupported_chain c = (map_option chain_id (wallet_chain c) \<noteq> Some (chain_id kaiaMainnet))"

definition KaiaFunClient_buy ::
  "constants \<Rightarrow> env \<Rightarrow> client \<Rightarrow> string \<Rightarrow> int \<Rightarrow> int option \<Rightarrow> trade_result io" where
  "KaiaFunClient_buy K env c tokenAddress amount minTokenAmount_opt =
     (let minTokenAmount = (case minTokenAmount_opt of None \<Rightarrow> 0 | Some m \<Rightarrow> m) in
      if unsupported_chain c then io_throw (Error ''Unsupported chain'')
      else
        let req = \<lparr>address = KAIAFUN_CORE_ADDRESS K, abi = [buyWithETH],
                   functionName = ''buyWithETH'',
                   args = [JStr tokenAddress, JBigInt minTokenAmount],
                   attached_value = Some amount\<rparr> in
        io_bind (io_call (WriteContract req) (writeContract env req)) (\<lambda>hash.
        io_bind (io_call (WaitForTransactionReceipt hash) (waitForTransactionReceipt env hash)) (\<lambda>r.
        io_return \<lparr>trade_receipt = r,
          tradeEvent = getEventFromReceipt (decodeEventLog env) (Some r) [TradeEvent]
                         (Some (abi_name TradeEvent))\<rparr>)))"

definition KaiaFunClient_sell ::
  "constants \<Rightarrow> env \<Rightarrow> client \<Rightarrow> string \<Rightarrow> int \<Rightarrow> int option \<Rightarrow> bool option \<Rightarrow> trade_result io" where
  "KaiaFunClient_sell K env c tokenAddress amount minBaseAmount_opt isOutputKAIA_opt =
     (let minBaseAmount = (case minBaseAmount_opt of None \<Rightarrow> 0 | Some m \<Rightarrow> m);
          isOutputKAIA = (case isOutputKAIA_opt of None \<Rightarrow> True | Some b \<Rightarrow> b) in
      if unsupported_chain c then io_throw (Error ''Unsupported chain'')
      else
        let req = \<lparr>address = KAIAFUN_CORE_ADDRESS K, abi = [sell],
                   functionName = ''sell'',
                   args = [JStr tokenAddress, JBigInt amount, JBigInt minBaseAmount,
                           JBool isOutputKAIA],
                   attached_value = None\<rparr> in
        io_bind (io_call (WriteContract req) (writeContract env req)) (\<lambda>hash.
        io_bind (io_call (WaitForTransactionReceipt hash) (waitForTransactionReceipt env hash)) (\<lambda>r.
        io_return \<lparr>trade_receipt = r,
          tradeEvent = getEventFromReceipt (decodeEventLog env) (Some r) [TradeEvent]
                         (Some (abi_name TradeEvent))\<rparr>)))"

text \<open>The string built at lines 237 to 244 of the client: six properties, in this order.\<close>

definition serialized_metadata :: "env \<Rightarrow> client \<Rightarrow> metadata \<Rightarrow> string" where
  "serialized_metadata env c m =
     JSON_stringify_object
       [(''name'', JStr (name m)),
        (''symbol'', JStr (symbol m)),
        (''description'', JStr (description m)),
        (''imageURL'', JStr (imageURL m)),
        (''creator'', JStr (toLowerCase (account_address c))),
        (''t'', JNum (int (Date_now env)))]"

definition KaiaFunClient_list ::
  "constants \<Rightarrow> env \<Rightarrow> client \<Rightarrow> metadata \<Rightarrow> list_result io" where
  "KaiaFunClient_list K env c m =
     (if unsupported_chain c then io_throw (Error ''Unsupported chain'')
      else
        io_bind (io_call (GetBalance (account_address c)) (getBalance env (account_address c)))
          (\<lambda>balance.
        if balance < parseEther_10 then io_throw (Error ''Insufficient balance'')
        else
          let serialized = serialized_metadata env c m in
          io_bind (axios_post env (API_BASE_URL @ ''/token/metadata'')
                     (JsonBody (JObj [(''metadata'', JStr serialized)])) []) (\<lambda>d.
          io_bind (io_lift (get_prop d ''hash'')) (\<lambda>metadataHash.
          let req = \<lparr>address = KAIAFUN_CORE_ADDRESS K, abi = [listWithETH],
                     functionName = ''listWithETH'',
                     args = [JStr (WETH_ADDRESS K), JStr (name m), JStr (symbol m), metadataHash],
                     attached_value = Some parseEther_10\<rparr> in
          io_bind (io_call (WriteContract req) (writeContract env req)) (\<lambda>hash.
          io_bind (io_call (WaitForTransactionReceipt hash) (waitForTransactionReceipt env hash)) (\<lambda>r.
          io_return \<lparr>list_receipt = r,
            listEvent = getEventFromReceipt (decodeEventLog env) (Some r) [ListEvent]
                          (Some (abi_name ListEvent))\<rparr>))))))"

text \<open>
  \<^verbatim>\<open>uploadImage\<close>: the whole body is inside \<^verbatim>\<open>try\<close>; the \<^verbatim>\<open>catch\<close> logs and
  returns \<^verbatim>\<open>null\<close>. The value returned on the normal path is \<^verbatim>\<open>data.url\<close> as it is.
\<close>

definition KaiaFunClient_uploadImage :: "env \<Rightarrow> upload_file \<Rightarrow> js_value io" where
  "KaiaFunClient_uploadImage env f =
     (case io_bind (axios_post env (API_BASE_URL @ ''/upload?filename='' @ file_name f)
                      (FileBody f) [(''Content-Type'', file_type f)])
             (\<lambda>d. io_lift (get_prop d ''url'')) of
        (t, Inr url) \<Rightarrow> (t, Inr url)
      | (t, Inl error) \<Rightarrow> (t @ [ConsoleError ''Error:''], Inr JNull))"

section \<open>The \<^verbatim>\<open>get_token_url\<close> tool (\<^verbatim>\<open>kaiafun-mcp-server.ts\<close>)\<close>

record content_block =
  content_type :: string
  text_of :: string

text \<open>The pattern \<^verbatim>\<open>/^0x[a-fA-F0-9]{40}$/\<close> of the schema.\<close>

definition is_hex_char :: "char \<Rightarrow> bool" where
  "is_hex_char c = (c \<in> set ''0123456789abcdefABCDEF'')"

definition matches_address :: "string \<Rightarrow> bool" where
  "matches_address s = (length s = 42 \<and> take 2 s = ''0x'' \<and> list_all is_hex_char (drop 2 s))"

datatype zod_issue = NotAnObject | Required | NotAString | InvalidString string

text \<open>
  \<^verbatim>\<open>schemas.toolInputs.getTokenUrl.parse(args)\<close>: the argument must be an object whose
  \<^verbatim>\<open>tokenAddress\<close> is a string matching the pattern.
\<close>

definition getTokenUrl_parse :: "js_value \<Rightarrow> zod_issue + string" where
  "getTokenUrl_parse a =
     (case a of
        JObj props \<Rightarrow>
          (case map_of props ''tokenAddress'' of
             None \<Rightarrow> Inl Required
           | Some JUndefined \<Rightarrow> Inl Required
           | Some (JStr s) \<Rightarrow>
               if matches_address s then Inr s else Inl (InvalidString ''Invalid token address'')
           | Some v \<Rightarrow> Inl NotAString)
      | JUndefined \<Rightarrow> Inl Required
      | v \<Rightarrow> Inl NotAnObject)"

text \<open>
  \<^verbatim>\<open>formatError\<close> reads the error's \<^verbatim>\<open>code\<close> and \<^verbatim>\<open>message\<close>; a property is
  falsy when it is absent or the empty string.
\<close>

definition or_else :: "string option \<Rightarrow> string \<Rightarrow> string" where
  "or_else p dflt = (case p of None \<Rightarrow> dflt | Some s \<Rightarrow> if s = [] then dflt else s)"

definition formatError :: "string option \<Rightarrow> string option \<Rightarrow> string" where
  "formatError code message =
     (case code of
        None \<Rightarrow> or_else message ''An unknown error occurred''
      | Some cd \<Rightarrow>
          if cd = [] then or_else message ''An unknown error occurred''
          else ''Error ('' @ cd @ ''): '' @ or_else message ''Unknown error'')"

text \<open>
  The handler. A validation error carries no \<^verbatim>\<open>code\<close>; the text of its message is
  produced by zod and is a parameter here.
\<close>

definition get_token_url :: "(zod_issue \<Rightarrow> string) \<Rightarrow> js_value \<Rightarrow> effect list \<times> content_block list" where
  "get_token_url zod_message a =
     (case getTokenUrl_parse a of
        Inr tokenAddress \<Rightarrow>
          (let url = ''https://kaiafun.io/token/'' @ toLowerCase tokenAddress in
           ([], [\<lparr>content_type = ''text'', text_of = ''Token URL: '' @ url\<rparr>]))
      | Inl issue \<Rightarrow>
          ([ConsoleError ''Error getting token URL:'', ConsoleError ''Full error:''],
           [\<lparr>content_type = ''text'',
             text_of = ''Error getting token URL: '' @ formatError None (Some (zod_message issue))\<rparr>]))"

section \<open>Unit conversion\<close>

text \<open>
  The handlers \<^verbatim>\<open>parse_ether\<close> and \<^verbatim>\<open>format_ether\<close> of the server call viem's
  \<^verbatim>\<open>parseEther\<close> and \<^verbatim>\<open>formatEther\<close> and put the result into a text block. The two
  library functions are not part of the sources at hand; they and their helpers below are
  modelled from the specification: an amount in display units is a decimal string, the
  smallest unit is \<open>10 ^ 18\<close> of the display unit, and \<^verbatim>\<open>"1.5"\<close> converts to
  \<^verbatim>\<open>1500000000000000000\<close> and back to \<^verbatim>\<open>"1.5"\<close>.
\<close>

text \<open>
  Modelled from the spec: the decimal digits, used by the models of \<^verbatim>\<open>parseEther\<close> and
  \<^verbatim>\<open>formatEther\<close>, which are missing from the sources.
\<close>

definition is_digit :: "char \<Rightarrow> bool" where
  "is_digit c = (c \<in> set ''0123456789'')"

text \<open>Modelled from the spec: the value of a decimal digit, its position among the ten digits.\<close>

definition digit_val :: "char \<Rightarrow> nat" where
  "digit_val c = length (takeWhile (\<lambda>d. d \<noteq> c) ''0123456789'')"

text \<open>
  Modelled from the spec: the number a digit string denotes, most significant digit first;
  leading zeros are allowed and the empty string denotes zero.
\<close>

definition digits_val :: "string \<Rightarrow> nat" where
  "digits_val ds = foldl (\<lambda>n c. 10 * n + digit_val c) 0 ds"

text \<open>
  Modelled from the spec: the \<open>k\<close> low decimal digits of a number, with leading zeros, used
  by the model of the missing \<^verbatim>\<open>formatEther\<close>.
\<close>

fun fixed_digits :: "nat \<Rightarrow> nat \<Rightarrow> string" where
  "fixed_digits 0 n = []"
| "fixed_digits (Suc k) n = fixed_digits k (n div 10) @ [digit_char (n mod 10)]"

text \<open>Modelled from the spec: a fraction is written without trailing zeros.\<close>

definition strip_trailing_zeros :: "string \<Rightarrow> string" where
  "strip_trailing_zeros s = rev (dropWhile (\<lambda>c. c = CHR ''0'') (rev s))"

text \<open>
  Modelled from the spec: viem's \<^verbatim>\<open>parseEther\<close>, missing from the sources. The string
  is an optional minus sign, digits, an optional point and digits; either run of digits
  may be empty, and anything else is rejected. Trailing zeros of the fraction are dropped,
  the fraction is padded to eighteen digits, and integer part and fraction are read as
  one number. A fraction that still has more than eighteen digits cannot be represented;
  the library rounds it through floating point, which is the parameter \<open>round_off\<close> here.
\<close>

definition parseEther :: "(string \<Rightarrow> string \<Rightarrow> int) \<Rightarrow> string \<Rightarrow> exn + int" where
  "parseEther round_off s =
     (let negative = (take 1 s = ''-'');
          unsigned = (if negative then tl s else s);
          integer = takeWhile (\<lambda>c. c \<noteq> CHR ''.'') unsigned;
          rest = dropWhile (\<lambda>c. c \<noteq> CHR ''.'') unsigned;
          fraction = strip_trailing_zeros (if rest = [] then ''0'' else tl rest)
      in if list_all is_digit integer \<and> list_all is_digit (tl rest) then
           (let magnitude =
                  (if length fraction \<le> 18
                   then int (digits_val
                          (integer @ fraction @ replicate (18 - length fraction) (CHR ''0'')))
                   else round_off integer fraction)
            in Inr (if negative then - magnitude else magnitude))
         else Inl (LibError ''InvalidDecimalNumberError''))"

text \<open>
  Modelled from the spec: viem's \<^verbatim>\<open>formatEther\<close>, missing from the sources. The last
  eighteen digits of the amount are the fraction, written without trailing zeros and left
  out with the point when nothing remains; the digits before them are the integer part,
  \<^verbatim>\<open>0\<close> when there are none. So \<^verbatim>\<open>1500000000000000000\<close> is written \<^verbatim>\<open>"1.5"\<close>.
\<close>

definition formatEther :: "int \<Rightarrow> string" where
  "formatEther v =
     (let n = nat \<bar>v\<bar>; ip = n div 10 ^ 18; fr = n mod 10 ^ 18
      in (if v < 0 then ''-'' else []) @ show_nat ip @
         (if fr = 0 then [] else ''.'' @ strip_trailing_zeros (fixed_digits 18 fr)))"

text \<open>The round trip: amount to smallest unit and back.\<close>

definition format_after_parse :: "(string \<Rightarrow> string \<Rightarrow> int) \<Rightarrow> string \<Rightarrow> exn + string" where
  "format_after_parse round_off s =
     (case parseEther round_off s of Inl e \<Rightarrow> Inl e | Inr n \<Rightarrow> Inr (formatEther n))"

text \<open>
  The non-negative decimal strings that the unit's precision can represent: digits, an
  optional point and digits, with at most eighteen digits of fraction before its trailing
  zeros.
\<close>

definition representable :: "string \<Rightarrow> bool" where
  "representable s =
     (let integer = takeWhile (\<lambda>c. c \<noteq> CHR ''.'') s;
          rest = dropWhile (\<lambda>c. c \<noteq> CHR ''.'') s
      in list_all is_digit integer \<and> list_all is_digit (tl rest)
         \<and> length (strip_trailing_zeros (tl rest)) \<le> 18)"

text \<open>
  A decimal string is canonical when its integer part is not empty and has no superfluous
  leading zero and its fraction, if there is a point, is not empty, has at most eighteen
  digits and does not end in zero.
\<close>

definition canonical_amount :: "string \<Rightarrow> bool" where
  "canonical_amount s =
     (let ip = takeWhile (\<lambda>c. c \<noteq> CHR ''.'') s;
          rest = dropWhile (\<lambda>c. c \<noteq> CHR ''.'') s
      in ip \<noteq> [] \<and> list_all is_digit ip \<and> (ip = ''0'' \<or> hd ip \<noteq> CHR ''0'')
         \<and> (rest = [] \<or>
             (tl rest \<noteq> [] \<and> list_all is_digit (tl rest) \<and> length (tl rest) \<le> 18
              \<and> last (tl rest) \<noteq> CHR ''0'')))"

text \<open>
  The canonical string of the amount a decimal string denotes: leading zeros of the
  integer part and trailing zeros of the fraction removed, \<^verbatim>\<open>0\<close> for an empty integer
  part, and no point before an empty fraction.
\<close>

definition integer_text :: "string \<Rightarrow> string" where
  "integer_text ip =
     (let t = dropWhile (\<lambda>c. c = CHR ''0'') ip in if t = [] then ''0'' else t)"

definition canonical_text :: "string \<Rightarrow> string" where
  "canonical_text s =
     (let integer = takeWhile (\<lambda>c. c \<noteq> CHR ''.'') s;
          rest = dropWhile (\<lambda>c. c \<noteq> CHR ''.'') s;
          fraction = strip_trailing_zeros (tl rest)
      in integer_text integer @ (if fraction = [] then [] else ''.'' @ fraction))"

section \<open>Sample data\<close>

text \<open>
  Concrete collaborators and inputs on which the theorems below are exercised. The sample
  decoder reads the event's name off the first topic and accepts it when the shape set
  has an event of that name; it throws on every other log.
\<close>

definition sample_decoder :: decoder where
  "sample_decoder ab d ts =
     (case ts of
        [] \<Rightarrow> Inl (LibError ''AbiEventSignatureEmptyTopicsError'')
      | t # rest \<Rightarrow>
          if t \<in> set (map abi_name ab)
          then Inr \<lparr>eventName = t, event_args = [(''data'', JStr d)]\<rparr>
          else Inl (LibError ''AbiEventSignatureNotFoundError''))"

definition mk_log :: "string \<Rightarrow> string \<Rightarrow> nat \<Rightarrow> log_entry" where
  "mk_log t d i = \<lparr>log_address = ''0xc0'', data = d, topics = [t], logIndex = i\<rparr>"

definition sample_receipt :: receipt where
  "sample_receipt = \<lparr>status = Success, transactionHash = ''0xabc'', blockNumber = 7,
     logs = [mk_log ''Transfer'' ''0x00'' 0, mk_log ''List'' ''0x01'' 1,
             mk_log ''Trade'' ''0x02'' 2, mk_log ''Trade'' ''0x03'' 3]\<rparr>"

definition other_receipt :: receipt where
  "other_receipt = \<lparr>status = Reverted, transactionHash = ''0xdef'', blockNumber = 9,
     logs = [mk_log ''Transfer'' ''0x00'' 0, mk_log ''List'' ''0x01'' 1,
             mk_log ''Trade'' ''0x02'' 2, mk_log ''Trade'' ''0x03'' 3]\<rparr>"

definition transfer_only_receipt :: receipt where
  "transfer_only_receipt = \<lparr>status = Success, transactionHash = ''0x111'', blockNumber = 8,
     logs = [mk_log ''Transfer'' ''0x00'' 0]\<rparr>"

definition list_only_receipt :: receipt where
  "list_only_receipt = \<lparr>status = Success, transactionHash = ''0x222'', blockNumber = 8,
     logs = [mk_log ''List'' ''0x01'' 0]\<rparr>"

definition sample_constants :: constants where
  "sample_constants = \<lparr>KAIAFUN_CORE_ADDRESS = ''0xC0'', WETH_ADDRESS = ''0xE7''\<rparr>"

definition sample_response :: js_value where
  "sample_response = JObj [(''hash'', JStr ''QmHash''), (''url'', JStr ''https://cdn/x.png'')]"

definition sample_env :: env where
  "sample_env = \<lparr>getBalance = (\<lambda>a. Inr (25 * 10 ^ 18)),
     http_post = (\<lambda>u b h. HttpResponse 200 sample_response),
     writeContract = (\<lambda>r. Inr ''0xabc''),
     waitForTransactionReceipt = (\<lambda>h. Inr sample_receipt),
     decodeEventLog = sample_decoder,
     Date_now = 1700000000000\<rparr>"

definition short_env :: env where
  "short_env = sample_env\<lparr>getBalance := (\<lambda>a. Inr (10 * 10 ^ 18 - 1))\<rparr>"

definition offline_env :: env where
  "offline_env = sample_env\<lparr>http_post := (\<lambda>u b h. NetworkFailure)\<rparr>"

definition failing_env :: env where
  "failing_env = sample_env\<lparr>http_post := (\<lambda>u b h. HttpResponse 500 (JStr ''Internal Server Error''))\<rparr>"

definition empty_body_env :: env where
  "empty_body_env = sample_env\<lparr>http_post := (\<lambda>u b h. HttpResponse 200 (JStr []))\<rparr>"

definition odd_body_env :: env where
  "odd_body_env = sample_env\<lparr>http_post := (\<lambda>u b h. HttpResponse 200 (JObj [(''url'', JNum 42)]))\<rparr>"

definition sample_client :: client where
  "sample_client = \<lparr>wallet_chain = Some kaiaMainnet,
     account_address = ''0xAbCdEf0123456789aBcDeF0123456789AbCdEf01''\<rparr>"

definition other_chain :: chain where
  "other_chain = \<lparr>chain_id = 1, chain_name = ''Ethereum'', decimals = 18,
     currency_symbol = ''ETH'', rpc_url = ''https://eth.example''\<rparr>"

definition other_chain_client :: client where
  "other_chain_client = sample_client\<lparr>wallet_chain := Some other_chain\<rparr>"

definition no_chain_client :: client where
  "no_chain_client = sample_client\<lparr>wallet_chain := None\<rparr>"

definition foo_metadata :: metadata where
  "foo_metadata = \<lparr>name = ''Foo'', symbol = ''FOO'', description = ''d'',
     imageURL = ''https://x/y.png'', twitter = None, telegram = None, website = None\<rparr>"

definition foo_social_metadata :: metadata where
  "foo_social_metadata = foo_metadata\<lparr>twitter := Some ''@foo'',
     telegram := Some ''t.me/foo'', website := Some ''https://foo.example''\<rparr>"

definition sample_file :: upload_file where
  "sample_file = \<lparr>file_name = ''a.png'', file_type = ''image/png'',
     file_bytes = [137, 80, 78, 71]\<rparr>"

definition sample_token :: string where
  "sample_token = ''0xAAaaaaaaAAaaaaaaaaaaAAAAaaaaaaaaaaaaBbCc''"

definition dq :: string where
  "dq = [CHR 0x22]"

definition quoted :: "string \<Rightarrow> string" where
  "quoted s = dq @ s @ dq"

definition sample_zod_message :: "zod_issue \<Rightarrow> string" where
  "sample_zod_message i =
     (case i of InvalidString msg \<Rightarrow> msg | Required \<Rightarrow> ''Required'' | _ \<Rightarrow> ''Invalid input'')"

text \<open>A stand-in for the library's rounding of a fraction that is too long: it cuts.\<close>

definition truncating_round_off :: "string \<Rightarrow> string \<Rightarrow> int" where
  "truncating_round_off integer fraction = int (digits_val (integer @ take 18 fraction))"

text \<open>
  Decoders with a state: one that counts its calls and answers as the sample decoder
  does, one that leaves the state alone, and one whose answer depends on the state.
\<close>

definition counting_decoder :: "nat stateful_decoder" where
  "counting_decoder s ab d ts = (sample_decoder ab d ts, Suc s)"

definition quiet_decoder :: "nat stateful_decoder" where
  "quiet_decoder s ab d ts = (sample_decoder ab d ts, s)"

definition moody_decoder :: "nat stateful_decoder" where
  "moody_decoder s ab d ts =
     (if s = 0 then sample_decoder ab d ts else Inl (LibError ''DecodeLogDataMismatch''), Suc s)"

section \<open>Event extraction\<close>

lemma find_decoded_aux:
  "(case find (\<lambda>x. map_option f x = Some n) (map g xs) of None \<Rightarrow> None | Some y \<Rightarrow> y)
     = find (\<lambda>d. f d = n) (List.map_filter g xs)"
proof (induction xs)
  case Nil
  show ?case by (simp add: List.map_filter_simps)
next
  case (Cons x xs)
  show ?case
  proof (cases "g x")
    case None
    with Cons show ?thesis by (simp add: List.map_filter_simps)
  next
    case (Some d)
    with Cons show ?thesis by (simp add: List.map_filter_simps)
  qed
qed

lemma find_undecoded_aux:
  "(case find (\<lambda>x. map_option f x = None) ys of None \<Rightarrow> None | Some y \<Rightarrow> y) = None"
  by (induction ys) simp_all

lemma getEventFromReceipt_absent: "getEventFromReceipt dec None ab nm = None"
  by (simp add: getEventFromReceipt_def)

lemma getEventFromReceipt_no_name: "getEventFromReceipt dec (Some r) ab None = None"
  unfolding getEventFromReceipt_def option.case by (rule find_undecoded_aux)

lemma try_decode_over_decoder:
  "try_decode dec ab = (\<lambda>l. case dec ab (data l) (topics l) of Inl e \<Rightarrow> None | Inr d \<Rightarrow> Some d)"
  by (rule ext) (simp add: try_decode_def)

lemma getEventFromReceipt_named:
  "getEventFromReceipt dec (Some r) ab (Some n) =
     find (\<lambda>d. eventName d = n)
       (List.map_filter (\<lambda>l. case dec ab (data l) (topics l) of Inl e \<Rightarrow> None | Inr d \<Rightarrow> Some d)
          (logs r))"
  unfolding getEventFromReceipt_def option.case try_decode_over_decoder
  by (rule find_decoded_aux)

lemma getEventFromReceipt_no_logs:
  "getEventFromReceipt dec (Some (r\<lparr>logs := []\<rparr>)) ab nm = None"
  by (simp add: getEventFromReceipt_def)

lemma getEventFromReceipt_step:
  "getEventFromReceipt dec (Some (r\<lparr>logs := l # ls\<rparr>)) ab (Some n) =
     (case dec ab (data l) (topics l) of
        Inl e \<Rightarrow> getEventFromReceipt dec (Some (r\<lparr>logs := ls\<rparr>)) ab (Some n)
      | Inr d \<Rightarrow>
          if eventName d = n then Some d
          else getEventFromReceipt dec (Some (r\<lparr>logs := ls\<rparr>)) ab (Some n))"
  by (simp add: getEventFromReceipt_def try_decode_def split: sum.splits)

lemma getEventFromReceipt_none_decodes:
  assumes "\<forall>l \<in> set (logs r). \<exists>e. dec ab (data l) (topics l) = Inl e"
  shows "getEventFromReceipt dec (Some r) ab nm = None"
proof (cases nm)
  case None
  then show ?thesis by (simp add: getEventFromReceipt_no_name)
next
  case (Some n)
  have "List.map_filter (\<lambda>l. case dec ab (data l) (topics l) of Inl e \<Rightarrow> None | Inr d \<Rightarrow> Some d) xs = []"
    if "\<forall>l \<in> set xs. \<exists>e. dec ab (data l) (topics l) = Inl e" for xs
    using that by (induction xs) (auto simp add: List.map_filter_simps)
  from this [of "logs r"] assms Some show ?thesis
    by (simp add: getEventFromReceipt_named)
qed

lemma getEventFromReceipt_other_names:
  assumes "\<forall>l \<in> set (logs r). \<forall>d. dec ab (data l) (topics l) = Inr d \<longrightarrow> eventName d \<noteq> n"
  shows "getEventFromReceipt dec (Some r) ab (Some n) = None"
proof -
  have "find (\<lambda>d. eventName d = n)
          (List.map_filter (\<lambda>l. case dec ab (data l) (topics l) of Inl e \<Rightarrow> None | Inr d \<Rightarrow> Some d) xs)
          = None"
    if "\<forall>l \<in> set xs. \<forall>d. dec ab (data l) (topics l) = Inr d \<longrightarrow> eventName d \<noteq> n" for xs
    using that by (induction xs) (auto simp add: List.map_filter_simps split: sum.splits)
  from this [of "logs r"] assms show ?thesis
    by (simp add: getEventFromReceipt_named)
qed

text \<open>
  Claim C3. Event extraction runs the decoder on the payload and topics of each log, in
  log order, against the shape set. A log on which the decoder throws is skipped, and the
  first decoded entry whose event name is the requested one is returned: so says the
  equation for a receipt whose first log is \<open>l\<close>, and so says the closed form. The result
  is none when the receipt is absent, when it has no logs, when the decoder throws on
  every log, and when every log that decodes carries another name; a requested name that
  is itself absent matches no decoded entry.
\<close>

theorem getEventFromReceipt_first_match:
  "getEventFromReceipt dec None ab nm = None
   \<and> getEventFromReceipt dec (Some (r\<lparr>logs := []\<rparr>)) ab nm = None
   \<and> getEventFromReceipt dec (Some (r\<lparr>logs := l # ls\<rparr>)) ab (Some n) =
       (case dec ab (data l) (topics l) of
          Inl e \<Rightarrow> getEventFromReceipt dec (Some (r\<lparr>logs := ls\<rparr>)) ab (Some n)
        | Inr d \<Rightarrow>
            if eventName d = n then Some d
            else getEventFromReceipt dec (Some (r\<lparr>logs := ls\<rparr>)) ab (Some n))
   \<and> getEventFromReceipt dec (Some r) ab (Some n) =
       find (\<lambda>d. eventName d = n)
         (List.map_filter (\<lambda>l. case dec ab (data l) (topics l) of Inl e \<Rightarrow> None | Inr d \<Rightarrow> Some d)
            (logs r))
   \<and> ((\<forall>l \<in> set (logs r). \<exists>e. dec ab (data l) (topics l) = Inl e)
        \<longrightarrow> getEventFromReceipt dec (Some r) ab nm = None)
   \<and> ((\<forall>l \<in> set (logs r). \<forall>d. dec ab (data l) (topics l) = Inr d \<longrightarrow> eventName d \<noteq> n)
        \<longrightarrow> getEventFromReceipt dec (Some r) ab (Some n) = None)
   \<and> getEventFromReceipt dec (Some r) ab None = None"
proof (intro conjI impI)
  show "getEventFromReceipt dec None ab nm = None"
    by (rule getEventFromReceipt_absent)
  show "getEventFromReceipt dec (Some (r\<lparr>logs := []\<rparr>)) ab nm = None"
    by (rule getEventFromReceipt_no_logs)
  show "getEventFromReceipt dec (Some (r\<lparr>logs := l # ls\<rparr>)) ab (Some n) =
       (case dec ab (data l) (topics l) of
          Inl e \<Rightarrow> getEventFromReceipt dec (Some (r\<lparr>logs := ls\<rparr>)) ab (Some n)
        | Inr d \<Rightarrow>
            if eventName d = n then Some d
            else getEventFromReceipt dec (Some (r\<lparr>logs := ls\<rparr>)) ab (Some n))"
    by (rule getEventFromReceipt_step)
  show "getEventFromReceipt dec (Some r) ab (Some n) =
       find (\<lambda>d. eventName d = n)
         (List.map_filter (\<lambda>l. case dec ab (data l) (topics l) of Inl e \<Rightarrow> None | Inr d \<Rightarrow> Some d)
            (logs r))"
    by (rule getEventFromReceipt_named)
  show "getEventFromReceipt dec (Some r) ab nm = None"
    if "\<forall>l \<in> set (logs r). \<exists>e. dec ab (data l) (topics l) = Inl e"
    using that by (rule getEventFromReceipt_none_decodes)
  show "getEventFromReceipt dec (Some r) ab (Some n) = None"
    if "\<forall>l \<in> set (logs r). \<forall>d. dec ab (data l) (topics l) = Inr d \<longrightarrow> eventName d \<noteq> n"
    using that by (rule getEventFromReceipt_other_names)
  show "getEventFromReceipt dec (Some r) ab None = None"
    by (rule getEventFromReceipt_no_name)
qed

theorem getEventFromReceipt_first_match_witness:
  "logs transfer_only_receipt = [mk_log ''Transfer'' ''0x00'' 0]
   \<and> sample_decoder [TradeEvent] ''0x00'' [''Transfer'']
        = Inl (LibError ''AbiEventSignatureNotFoundError'')
   \<and> getEventFromReceipt sample_decoder (Some transfer_only_receipt) [TradeEvent] (Some ''Trade'') = None
   \<and> logs list_only_receipt = [mk_log ''List'' ''0x01'' 0]
   \<and> sample_decoder [TradeEvent, ListEvent] ''0x01'' [''List'']
        = Inr \<lparr>eventName = ''List'', event_args = [(''data'', JStr ''0x01'')]\<rparr>
   \<and> getEventFromReceipt sample_decoder (Some list_only_receipt) [TradeEvent, ListEvent]
        (Some ''Trade'') = None"
proof -
  have h1: "\<forall>l \<in> set (logs transfer_only_receipt).
      \<exists>e. sample_decoder [TradeEvent] (data l) (topics l) = Inl e"
    by (simp add: transfer_only_receipt_def mk_log_def sample_decoder_def TradeEvent_def)
  have h2: "\<forall>l \<in> set (logs list_only_receipt).
        \<forall>d. sample_decoder [TradeEvent, ListEvent] (data l) (topics l) = Inr d
          \<longrightarrow> eventName d \<noteq> ''Trade''"
    by (auto simp add: list_only_receipt_def mk_log_def sample_decoder_def TradeEvent_def
        ListEvent_def)
  have d: "sample_decoder [TradeEvent, ListEvent] ''0x01'' [''List'']
        = Inr \<lparr>eventName = ''List'', event_args = [(''data'', JStr ''0x01'')]\<rparr>"
    by (simp add: sample_decoder_def TradeEvent_def ListEvent_def)
  have e: "sample_decoder [TradeEvent] ''0x00'' [''Transfer'']
        = Inl (LibError ''AbiEventSignatureNotFoundError'')"
    by (simp add: sample_decoder_def TradeEvent_def)
  have l1: "logs transfer_only_receipt = [mk_log ''Transfer'' ''0x00'' 0]"
    by (simp add: transfer_only_receipt_def)
  have l2: "logs list_only_receipt = [mk_log ''List'' ''0x01'' 0]"
    by (simp add: list_only_receipt_def)
  from h1 h2 d e l1 l2
    getEventFromReceipt_first_match
      [where dec = sample_decoder and ab = "[TradeEvent]" and nm = "Some ''Trade''"
         and r = transfer_only_receipt and n = "''Trade''"]
    getEventFromReceipt_first_match
      [where dec = sample_decoder and ab = "[TradeEvent, ListEvent]" and nm = "Some ''Trade''"
         and r = list_only_receipt and n = "''Trade''"]
  show ?thesis by blast
qed

text \<open>
  The scenarios of the specification on the sample decoder: a receipt whose only log does
  not decode, a receipt whose only decodable log is a different event, and a receipt with
  several decodable logs, where the first one of the requested name wins.
\<close>

lemma extraction_undecodable_log:
  "getEventFromReceipt sample_decoder (Some transfer_only_receipt) [TradeEvent] (Some ''Trade'') = None"
  by (simp add: getEventFromReceipt_def try_decode_def sample_decoder_def
      transfer_only_receipt_def mk_log_def TradeEvent_def)

lemma extraction_other_event:
  "getEventFromReceipt sample_decoder (Some list_only_receipt) [TradeEvent, ListEvent] (Some ''Trade'') = None"
  by (simp add: getEventFromReceipt_def try_decode_def sample_decoder_def
      list_only_receipt_def mk_log_def TradeEvent_def ListEvent_def)

lemma extraction_first_in_order:
  "getEventFromReceipt sample_decoder (Some sample_receipt) [TradeEvent, ListEvent] (Some ''Trade'')
     = Some \<lparr>eventName = ''Trade'', event_args = [(''data'', JStr ''0x02'')]\<rparr>"
  by (simp add: getEventFromReceipt_def try_decode_def sample_decoder_def
      sample_receipt_def mk_log_def TradeEvent_def ListEvent_def)

text \<open>Only the payload and the topics of each log are read.\<close>

lemma getEventFromReceipt_reads_data_and_topics:
  assumes "map (\<lambda>l. (data l, topics l)) (logs r1) = map (\<lambda>l. (data l, topics l)) (logs r2)"
  shows "getEventFromReceipt dec (Some r1) ab nm = getEventFromReceipt dec (Some r2) ab nm"
proof -
  define h where "h = (\<lambda>p. case dec ab (fst p) (snd p) of Inl e \<Rightarrow> None | Inr d \<Rightarrow> Some d)"
  have eq: "map (try_decode dec ab) xs = map h (map (\<lambda>l. (data l, topics l)) xs)" for xs
    by (simp add: try_decode_def h_def)
  have "map (try_decode dec ab) (logs r1) = map (try_decode dec ab) (logs r2)"
    by (simp only: eq assms)
  then show ?thesis
    by (simp add: getEventFromReceipt_def)
qed

section \<open>Extraction across invocations\<close>

lemma decode_logs_state:
  "snd (decode_logs dec ab ls s) = foldl (\<lambda>s l. snd (dec s ab (data l) (topics l))) s ls"
  by (induction ls arbitrary: s) (simp_all add: split_beta)

lemma decode_logs_answers:
  assumes "\<forall>s s' a d t. fst (dec s a d t) = fst (dec s' a d t)"
  shows "fst (decode_logs dec ab ls s1) = fst (decode_logs dec ab ls s2)"
proof (induction ls arbitrary: s1 s2)
  case Nil
  show ?case by simp
next
  case (Cons l ls)
  from assms have "fst (dec s1 ab (data l) (topics l)) = fst (dec s2 ab (data l) (topics l))"
    by blast
  moreover have "fst (decode_logs dec ab ls (snd (dec s1 ab (data l) (topics l))))
      = fst (decode_logs dec ab ls (snd (dec s2 ab (data l) (topics l))))"
    by (rule Cons.IH)
  ultimately show ?case
    by (simp add: split_beta)
qed

lemma foldl_unchanged:
  assumes "\<forall>s a d t. snd (dec s a d t) = s"
  shows "foldl (\<lambda>s l. snd (dec s ab (data l) (topics l))) s ls = s"
  using assms by (induction ls arbitrary: s) simp_all

text \<open>With a decoder that ignores the state, the function is the one the client calls.\<close>

lemma getEventFromReceipt_in_pure:
  "getEventFromReceipt_in (\<lambda>s a d t. (dec a d t, s)) s receipt ab nm
     = (getEventFromReceipt dec receipt ab nm, s)"
proof -
  have "decode_logs (\<lambda>s a d t. (dec a d t, s)) ab ls s = (map (try_decode dec ab) ls, s)" for ls
    by (induction ls) (simp_all add: try_decode_def)
  then show ?thesis
    by (simp add: getEventFromReceipt_in_def getEventFromReceipt_def split: option.splits)
qed

text \<open>
  Claim C8. Extraction is run from an ambient state that the decoder, its only callee,
  may read and change. Whatever the decoder does, extraction changes the state by the
  decoder's calls alone, one per log in log order. For a decoder whose answer does not
  depend on the state, any two invocations, from any two states, on receipts with the same
  logs, the same shapes and the same requested name return the same result; and when the
  decoder leaves the state alone, so does extraction.
\<close>

theorem getEventFromReceipt_deterministic:
  assumes "\<forall>s s' a d t. fst (dec s a d t) = fst (dec s' a d t)" and "logs r1 = logs r2"
  shows "fst (getEventFromReceipt_in dec s1 (Some r1) ab nm)
           = fst (getEventFromReceipt_in dec s2 (Some r2) ab nm)
       \<and> snd (getEventFromReceipt_in dec s1 (Some r1) ab nm)
           = foldl (\<lambda>s l. snd (dec s ab (data l) (topics l))) s1 (logs r1)
       \<and> ((\<forall>s a d t. snd (dec s a d t) = s)
            \<longrightarrow> snd (getEventFromReceipt_in dec s1 (Some r1) ab nm) = s1)"
proof -
  have st: "snd (getEventFromReceipt_in dec s (Some r) ab nm)
           = foldl (\<lambda>s l. snd (dec s ab (data l) (topics l))) s (logs r)" for s r
    using decode_logs_state [of dec ab "logs r" s]
    by (simp add: getEventFromReceipt_in_def split_beta)
  have "fst (decode_logs dec ab (logs r1) s1) = fst (decode_logs dec ab (logs r2) s2)"
    using decode_logs_answers [OF assms(1)] assms(2) by simp
  then have res: "fst (getEventFromReceipt_in dec s1 (Some r1) ab nm)
           = fst (getEventFromReceipt_in dec s2 (Some r2) ab nm)"
    by (simp add: getEventFromReceipt_in_def split_beta)
  have "snd (getEventFromReceipt_in dec s1 (Some r1) ab nm) = s1"
    if "\<forall>s a d t. snd (dec s a d t) = s"
    using st [of s1 r1] foldl_unchanged [OF that] by simp
  with res st [of s1 r1] show ?thesis
    by blast
qed

theorem getEventFromReceipt_deterministic_witness:
  "(\<forall>s s' a d t. fst (counting_decoder s a d t) = fst (counting_decoder s' a d t))
   \<and> (\<forall>s s' a d t. fst (quiet_decoder s a d t) = fst (quiet_decoder s' a d t))
   \<and> (\<forall>s a d t. snd (quiet_decoder s a d t) = s)
   \<and> logs sample_receipt = logs other_receipt
   \<and> sample_receipt \<noteq> other_receipt
   \<and> fst (getEventFromReceipt_in counting_decoder 0 (Some sample_receipt) [TradeEvent] (Some ''Trade''))
       = fst (getEventFromReceipt_in counting_decoder 5 (Some other_receipt) [TradeEvent] (Some ''Trade''))
   \<and> snd (getEventFromReceipt_in quiet_decoder 5 (Some sample_receipt) [TradeEvent] (Some ''Trade'')) = 5"
proof -
  have c: "\<forall>s s' a d t. fst (counting_decoder s a d t) = fst (counting_decoder s' a d t)"
    by (simp add: counting_decoder_def)
  have q: "\<forall>s s' a d t. fst (quiet_decoder s a d t) = fst (quiet_decoder s' a d t)"
    by (simp add: quiet_decoder_def)
  have u: "\<forall>s a d t. snd (quiet_decoder s a d t) = s"
    by (simp add: quiet_decoder_def)
  have h: "logs sample_receipt = logs other_receipt"
    by (simp add: sample_receipt_def other_receipt_def)
  have d: "sample_receipt \<noteq> other_receipt"
    by (simp add: sample_receipt_def other_receipt_def)
  from c q u h d
    getEventFromReceipt_deterministic [OF c h, where ?s1.0 = 0 and ?s2.0 = 5]
    getEventFromReceipt_deterministic [OF q h, where ?s1.0 = 5]
  show ?thesis by blast
qed

text \<open>
  The hypothesis on the decoder is needed, and the state is really threaded: with a
  decoder that answers only in state 0, the same receipt gives an event from state 0 and
  none from state 1; and the counting decoder is called once for each of the four logs.
\<close>

lemma extraction_follows_decoder_state:
  "fst (getEventFromReceipt_in moody_decoder 0 (Some list_only_receipt) [ListEvent] (Some ''List''))
     = Some \<lparr>eventName = ''List'', event_args = [(''data'', JStr ''0x01'')]\<rparr>
   \<and> fst (getEventFromReceipt_in moody_decoder 1 (Some list_only_receipt) [ListEvent] (Some ''List''))
     = None"
  by (simp add: getEventFromReceipt_in_def moody_decoder_def sample_decoder_def
      list_only_receipt_def mk_log_def ListEvent_def)

lemma extraction_calls_decoder_per_log:
  "getEventFromReceipt_in counting_decoder 0 (Some sample_receipt) [TradeEvent] (Some ''Trade'')
     = (Some \<lparr>eventName = ''Trade'', event_args = [(''data'', JStr ''0x02'')]\<rparr>, 4)"
  by (simp add: getEventFromReceipt_in_def counting_decoder_def sample_decoder_def
      sample_receipt_def mk_log_def TradeEvent_def)

section \<open>The chain guard\<close>

lemma unsupported_chain_runs:
  assumes "unsupported_chain c"
  shows "KaiaFunClient_buy K env c a amt mt = ([], Inl (Error ''Unsupported chain''))"
    and "KaiaFunClient_sell K env c a amt mb ok = ([], Inl (Error ''Unsupported chain''))"
    and "KaiaFunClient_list K env c m = ([], Inl (Error ''Unsupported chain''))"
  using assms
  by (simp_all add: KaiaFunClient_buy_def KaiaFunClient_sell_def KaiaFunClient_list_def
      io_throw_def Let_def)

text \<open>
  Claim C1. On a connection whose chain id is not 8217, each of buy, sell and list throws
  the error \<^verbatim>\<open>Unsupported chain\<close> and makes no call at all: the list of calls is empty,
  so in particular nothing is submitted through \<^verbatim>\<open>writeContract\<close>.
\<close>

theorem mismatched_chain_aborts:
  assumes "wallet_chain c = Some ch" and "chain_id ch \<noteq> 8217"
  shows "KaiaFunClient_buy K env c a amt mt = ([], Inl (Error ''Unsupported chain''))
       \<and> KaiaFunClient_sell K env c a amt mb ok = ([], Inl (Error ''Unsupported chain''))
       \<and> KaiaFunClient_list K env c m = ([], Inl (Error ''Unsupported chain''))"
proof -
  from assms have "unsupported_chain c"
    by (simp add: unsupported_chain_def kaiaMainnet_def)
  then show ?thesis
    by (simp add: unsupported_chain_runs)
qed

theorem mismatched_chain_aborts_witness:
  "wallet_chain other_chain_client = Some other_chain
   \<and> chain_id other_chain \<noteq> 8217
   \<and> KaiaFunClient_buy sample_constants sample_env other_chain_client sample_token (10 ^ 18) None
       = ([], Inl (Error ''Unsupported chain''))
   \<and> KaiaFunClient_sell sample_constants sample_env other_chain_client sample_token 5 None None
       = ([], Inl (Error ''Unsupported chain''))
   \<and> KaiaFunClient_list sample_constants sample_env other_chain_client foo_metadata
       = ([], Inl (Error ''Unsupported chain''))"
proof -
  have h1: "wallet_chain other_chain_client = Some other_chain"
    by (simp add: other_chain_client_def)
  have h2: "chain_id other_chain \<noteq> 8217"
    by (simp add: other_chain_def)
  show ?thesis
    using h1 h2 mismatched_chain_aborts [OF h1 h2] by simp
qed

text \<open>
  Claim C9. When the wallet client has no chain at all, \<^verbatim>\<open>chain?.id\<close> is
  \<^verbatim>\<open>undefined\<close>, which differs from 8217: buy, sell and list throw
  \<^verbatim>\<open>Unsupported chain\<close> before any call, exactly as on a wrong chain.
\<close>

theorem absent_chain_aborts:
  assumes "wallet_chain c = None"
  shows "KaiaFunClient_buy K env c a amt mt = ([], Inl (Error ''Unsupported chain''))
       \<and> KaiaFunClient_sell K env c a amt mb ok = ([], Inl (Error ''Unsupported chain''))
       \<and> KaiaFunClient_list K env c m = ([], Inl (Error ''Unsupported chain''))"
proof -
  from assms have "unsupported_chain c"
    by (simp add: unsupported_chain_def)
  then show ?thesis
    by (simp add: unsupported_chain_runs)
qed

theorem absent_chain_aborts_witness:
  "wallet_chain no_chain_client = None
   \<and> KaiaFunClient_buy sample_constants sample_env no_chain_client sample_token (10 ^ 18) None
       = ([], Inl (Error ''Unsupported chain''))
   \<and> KaiaFunClient_sell sample_constants sample_env no_chain_client sample_token 5 None None
       = ([], Inl (Error ''Unsupported chain''))
   \<and> KaiaFunClient_list sample_constants sample_env no_chain_client foo_metadata
       = ([], Inl (Error ''Unsupported chain''))"
proof -
  have h: "wallet_chain no_chain_client = None"
    by (simp add: no_chain_client_def)
  show ?thesis
    using h absent_chain_aborts [OF h] by simp
qed

section \<open>Listing\<close>

lemma list_after_guard:
  assumes "\<not> unsupported_chain c"
    and "getBalance env (account_address c) = Inr b" and "b < parseEther_10"
  shows "KaiaFunClient_list K env c m =
           ([GetBalance (account_address c)], Inl (Error ''Insufficient balance''))"
  using assms
  by (simp add: KaiaFunClient_list_def io_bind_def io_call_def io_throw_def)

text \<open>
  Claim C2, as amended. When the balance query answers with a balance strictly below the
  listing fee of \<open>10 * 10 ^ 18\<close> smallest units, list makes no metadata POST and submits
  no transaction. On a connection with chain id 8217 its only call is the balance query
  and it throws \<^verbatim>\<open>Insufficient balance\<close>; on any other connection the chain guard comes
  first and it throws \<^verbatim>\<open>Unsupported chain\<close> without reading the balance.
\<close>

theorem list_insufficient_balance:
  assumes "getBalance env (account_address c) = Inr b" and "b < 10 * 10 ^ 18"
  shows "KaiaFunClient_list K env c m =
     (if map_option chain_id (wallet_chain c) = Some 8217
      then ([GetBalance (account_address c)], Inl (Error ''Insufficient balance''))
      else ([], Inl (Error ''Unsupported chain'')))"
proof (cases "unsupported_chain c")
  case True
  then have "KaiaFunClient_list K env c m = ([], Inl (Error ''Unsupported chain''))"
    by (rule unsupported_chain_runs(3))
  with True show ?thesis
    by (simp add: unsupported_chain_def kaiaMainnet_def)
next
  case False
  from assms(2) have "b < parseEther_10"
    by (simp add: parseEther_10_def)
  with False assms(1) have "KaiaFunClient_list K env c m =
      ([GetBalance (account_address c)], Inl (Error ''Insufficient balance''))"
    by (rule list_after_guard)
  with False show ?thesis
    by (simp add: unsupported_chain_def kaiaMainnet_def)
qed

theorem list_insufficient_balance_witness:
  "getBalance short_env (account_address sample_client) = Inr (10 * 10 ^ 18 - 1)
   \<and> (10 * 10 ^ 18 - 1 :: int) < 10 * 10 ^ 18
   \<and> KaiaFunClient_list sample_constants short_env sample_client foo_metadata =
       ([GetBalance (account_address sample_client)], Inl (Error ''Insufficient balance''))"
proof -
  have h1: "getBalance short_env (account_address sample_client) = Inr (10 * 10 ^ 18 - 1)"
    by (simp add: short_env_def sample_env_def)
  have h2: "(10 * 10 ^ 18 - 1 :: int) < 10 * 10 ^ 18"
    by simp
  have g: "map_option chain_id (wallet_chain sample_client) = Some 8217"
    by (simp add: sample_client_def kaiaMainnet_def)
  show ?thesis
    using h1 h2 g list_insufficient_balance [OF h1 h2, of sample_constants foo_metadata]
    by simp
qed

text \<open>
  The claim as written fails on a wrong chain: the balance is one unit short of the fee,
  yet the error is \<^verbatim>\<open>Unsupported chain\<close>.
\<close>

theorem list_insufficient_balance_counterexample:
  "getBalance short_env (account_address other_chain_client) = Inr (10 * 10 ^ 18 - 1)
   \<and> (10 * 10 ^ 18 - 1 :: int) < 10 * 10 ^ 18
   \<and> KaiaFunClient_list sample_constants short_env other_chain_client foo_metadata
       = ([], Inl (Error ''Unsupported chain''))
   \<and> snd (KaiaFunClient_list sample_constants short_env other_chain_client foo_metadata)
       \<noteq> Inl (Error ''Insufficient balance'')"
  by (simp add: KaiaFunClient_list_def unsupported_chain_def other_chain_client_def
      other_chain_def kaiaMainnet_def sample_client_def io_throw_def short_env_def sample_env_def)

text \<open>The social links never reach the serialised payload, nor anything else list does.\<close>

lemma serialized_ignores_social_links:
  "serialized_metadata env c (m\<lparr>twitter := tw, telegram := tg, website := ws\<rparr>)
     = serialized_metadata env c m"
  by (simp add: serialized_metadata_def)

lemma list_ignores_social_links:
  "KaiaFunClient_list K env c (m\<lparr>twitter := tw, telegram := tg, website := ws\<rparr>)
     = KaiaFunClient_list K env c m"
  by (simp add: KaiaFunClient_list_def serialized_ignores_social_links Let_def cong: if_cong)

lemma sample_serialized:
  "serialized_metadata sample_env sample_client foo_social_metadata =
     ''{'' @ quoted ''name'' @ '':'' @ quoted ''Foo'' @ '','' @
     quoted ''symbol'' @ '':'' @ quoted ''FOO'' @ '','' @
     quoted ''description'' @ '':'' @ quoted ''d'' @ '','' @
     quoted ''imageURL'' @ '':'' @ quoted ''https://x/y.png'' @ '','' @
     quoted ''creator'' @ '':'' @ quoted ''0xabcdef0123456789abcdef0123456789abcdef01'' @ '','' @
     quoted ''t'' @ '':'' @ ''1700000000000'' @ ''}''"
  by (simp add: serialized_metadata_def JSON_stringify_object_def List.map_filter_simps
      JSON_quote_def JSON_escape_char_def toLowerCase_def toLowerCase_char_def
      upper_letters_def lower_letters_def show_int_def show_nat.simps digit_char_def
      sample_env_def sample_client_def foo_social_metadata_def foo_metadata_def quoted_def dq_def)

text \<open>
  Claim C4 at a listing with social links: the payload posted to the metadata endpoint
  holds the name, the symbol, the description, the image URL, the creator and the
  timestamp, and none of the three links the caller supplied.
\<close>

theorem list_payload_without_social_links:
  "twitter foo_social_metadata = Some ''@foo''
   \<and> fst (KaiaFunClient_list sample_constants sample_env sample_client foo_social_metadata) =
      [GetBalance ''0xAbCdEf0123456789aBcDeF0123456789AbCdEf01'',
       HttpPost ''https://kaiafun.io/api/token/metadata''
         (JsonBody (JObj [(''metadata'', JStr (
            ''{'' @ quoted ''name'' @ '':'' @ quoted ''Foo'' @ '','' @
            quoted ''symbol'' @ '':'' @ quoted ''FOO'' @ '','' @
            quoted ''description'' @ '':'' @ quoted ''d'' @ '','' @
            quoted ''imageURL'' @ '':'' @ quoted ''https://x/y.png'' @ '','' @
            quoted ''creator'' @ '':'' @ quoted ''0xabcdef0123456789abcdef0123456789abcdef01'' @ '','' @
            quoted ''t'' @ '':'' @ ''1700000000000'' @ ''}''))])) [],
       WriteContract \<lparr>address = ''0xC0'', abi = [listWithETH], functionName = ''listWithETH'',
         args = [JStr ''0xE7'', JStr ''Foo'', JStr ''FOO'', JStr ''QmHash''],
         attached_value = Some (10 * 10 ^ 18)\<rparr>,
       WaitForTransactionReceipt ''0xabc'']"
proof -
  have g: "\<not> unsupported_chain sample_client"
    by (simp add: unsupported_chain_def sample_client_def kaiaMainnet_def)
  have b: "getBalance sample_env (account_address sample_client) = Inr (25 * 10 ^ 18)"
    by (simp add: sample_env_def)
  have p: "http_post sample_env u bd h = HttpResponse 200 sample_response" for u bd h
    by (simp add: sample_env_def)
  have w: "writeContract sample_env rq = Inr ''0xabc''" for rq
    by (simp add: sample_env_def)
  have r: "waitForTransactionReceipt sample_env hs = Inr sample_receipt" for hs
    by (simp add: sample_env_def)
  have nm: "name foo_social_metadata = ''Foo''" "symbol foo_social_metadata = ''FOO''"
    by (simp_all add: foo_social_metadata_def foo_metadata_def)
  have tw: "twitter foo_social_metadata = Some ''@foo''"
    by (simp add: foo_social_metadata_def)
  have a: "account_address sample_client = ''0xAbCdEf0123456789aBcDeF0123456789AbCdEf01''"
    by (simp add: sample_client_def)
  have k: "KAIAFUN_CORE_ADDRESS sample_constants = ''0xC0''" "WETH_ADDRESS sample_constants = ''0xE7''"
    by (simp_all add: sample_constants_def)
  have "fst (KaiaFunClient_list sample_constants sample_env sample_client foo_social_metadata) =
      [GetBalance (account_address sample_client),
       HttpPost ''https://kaiafun.io/api/token/metadata''
         (JsonBody (JObj [(''metadata'',
            JStr (serialized_metadata sample_env sample_client foo_social_metadata))])) [],
       WriteContract \<lparr>address = ''0xC0'', abi = [listWithETH], functionName = ''listWithETH'',
         args = [JStr ''0xE7'', JStr ''Foo'', JStr ''FOO'', JStr ''QmHash''],
         attached_value = Some (10 * 10 ^ 18)\<rparr>,
       WaitForTransactionReceipt ''0xabc'']"
    using g
    by (simp add: KaiaFunClient_list_def b p w r nm k parseEther_10_def axios_post_def
        io_bind_def io_call_def io_lift_def io_return_def API_BASE_URL_def sample_response_def)
  then show ?thesis
    by (simp only: sample_serialized a tw simp_thms)
qed

text \<open>A failing metadata POST ends list before anything is submitted.\<close>

lemma list_post_failure_aborts:
  assumes "\<not> unsupported_chain c"
    and "getBalance env (account_address c) = Inr b" and "\<not> b < parseEther_10"
    and "http_post env (API_BASE_URL @ ''/token/metadata'')
           (JsonBody (JObj [(''metadata'', JStr (serialized_metadata env c m))])) [] = out"
    and "out = NetworkFailure \<or> (\<exists>st d. out = HttpResponse st d \<and> \<not> (200 \<le> st \<and> st < 300))"
  shows "\<exists>e. KaiaFunClient_list K env c m =
           ([GetBalance (account_address c),
             HttpPost (API_BASE_URL @ ''/token/metadata'')
               (JsonBody (JObj [(''metadata'', JStr (serialized_metadata env c m))])) []],
            Inl e)"
  using assms
  by (auto simp add: KaiaFunClient_list_def axios_post_def io_bind_def io_call_def io_throw_def)

section \<open>Buying and selling\<close>

text \<open>
  Claim C6, as amended. The client checks nothing about the amount or the token address:
  on a connection with chain id 8217, buy and sell begin by submitting the call with the
  address and the amount exactly as given, whatever they are. The chain guard is the only
  precondition they enforce.
\<close>

theorem buy_sell_submit_unchecked:
  assumes "wallet_chain c = Some ch" and "chain_id ch = 8217"
  shows "take 1 (fst (KaiaFunClient_buy K env c a amt mt)) =
           [WriteContract \<lparr>address = KAIAFUN_CORE_ADDRESS K, abi = [buyWithETH],
              functionName = ''buyWithETH'',
              args = [JStr a, JBigInt (case mt of None \<Rightarrow> 0 | Some m \<Rightarrow> m)],
              attached_value = Some amt\<rparr>]
       \<and> take 1 (fst (KaiaFunClient_sell K env c a amt mb ok)) =
           [WriteContract \<lparr>address = KAIAFUN_CORE_ADDRESS K, abi = [sell],
              functionName = ''sell'',
              args = [JStr a, JBigInt amt, JBigInt (case mb of None \<Rightarrow> 0 | Some m \<Rightarrow> m),
                      JBool (case ok of None \<Rightarrow> True | Some b \<Rightarrow> b)],
              attached_value = None\<rparr>]"
proof -
  from assms have g: "\<not> unsupported_chain c"
    by (simp add: unsupported_chain_def kaiaMainnet_def)
  have "take 1 (fst (KaiaFunClient_buy K env c a amt mt)) =
           [WriteContract \<lparr>address = KAIAFUN_CORE_ADDRESS K, abi = [buyWithETH],
              functionName = ''buyWithETH'',
              args = [JStr a, JBigInt (case mt of None \<Rightarrow> 0 | Some m \<Rightarrow> m)],
              attached_value = Some amt\<rparr>]"
    using g
    by (simp add: KaiaFunClient_buy_def Let_def io_bind_def io_call_def io_return_def
        split: sum.splits prod.splits)
  moreover have "take 1 (fst (KaiaFunClient_sell K env c a amt mb ok)) =
           [WriteContract \<lparr>address = KAIAFUN_CORE_ADDRESS K, abi = [sell],
              functionName = ''sell'',
              args = [JStr a, JBigInt amt, JBigInt (case mb of None \<Rightarrow> 0 | Some m \<Rightarrow> m),
                      JBool (case ok of None \<Rightarrow> True | Some b \<Rightarrow> b)],
              attached_value = None\<rparr>]"
    using g
    by (simp add: KaiaFunClient_sell_def Let_def io_bind_def io_call_def io_return_def
        split: sum.splits prod.splits)
  ultimately show ?thesis by simp
qed

theorem buy_sell_submit_unchecked_witness:
  "wallet_chain sample_client = Some kaiaMainnet
   \<and> chain_id kaiaMainnet = 8217
   \<and> take 1 (fst (KaiaFunClient_buy sample_constants sample_env sample_client ''nonsense'' (- 3) None)) =
       [WriteContract \<lparr>address = ''0xC0'', abi = [buyWithETH], functionName = ''buyWithETH'',
          args = [JStr ''nonsense'', JBigInt 0], attached_value = Some (- 3)\<rparr>]
   \<and> take 1 (fst (KaiaFunClient_sell sample_constants sample_env sample_client ''nonsense'' 0 None None)) =
       [WriteContract \<lparr>address = ''0xC0'', abi = [sell], functionName = ''sell'',
          args = [JStr ''nonsense'', JBigInt 0, JBigInt 0, JBool True], attached_value = None\<rparr>]"
proof -
  have h1: "wallet_chain sample_client = Some kaiaMainnet"
    by (simp add: sample_client_def)
  have h2: "chain_id kaiaMainnet = 8217"
    by (simp add: kaiaMainnet_def)
  have k: "KAIAFUN_CORE_ADDRESS sample_constants = ''0xC0''"
    by (simp add: sample_constants_def)
  show ?thesis
    using h1 h2 k
      buy_sell_submit_unchecked [OF h1 h2, of sample_constants sample_env "''nonsense''" "- 3" None]
      buy_sell_submit_unchecked [OF h1 h2, of sample_constants sample_env "''nonsense''" 0 None None None]
    by simp
qed

text \<open>
  A purchase of amount zero and a sale of amount zero, each for a well-formed token
  address, are submitted and succeed: no error is raised by the client.
\<close>

theorem buy_sell_zero_amount_counterexample:
  "matches_address sample_token
   \<and> KaiaFunClient_buy sample_constants sample_env sample_client sample_token 0 None =
       ([WriteContract \<lparr>address = ''0xC0'', abi = [buyWithETH], functionName = ''buyWithETH'',
           args = [JStr sample_token, JBigInt 0], attached_value = Some 0\<rparr>,
         WaitForTransactionReceipt ''0xabc''],
        Inr \<lparr>trade_receipt = sample_receipt,
              tradeEvent = Some \<lparr>eventName = ''Trade'', event_args = [(''data'', JStr ''0x02'')]\<rparr>\<rparr>)
   \<and> KaiaFunClient_sell sample_constants sample_env sample_client sample_token 0 None None =
       ([WriteContract \<lparr>address = ''0xC0'', abi = [sell], functionName = ''sell'',
           args = [JStr sample_token, JBigInt 0, JBigInt 0, JBool True], attached_value = None\<rparr>,
         WaitForTransactionReceipt ''0xabc''],
        Inr \<lparr>trade_receipt = sample_receipt,
              tradeEvent = Some \<lparr>eventName = ''Trade'', event_args = [(''data'', JStr ''0x02'')]\<rparr>\<rparr>)"
proof -
  have g: "\<not> unsupported_chain sample_client"
    by (simp add: unsupported_chain_def sample_client_def kaiaMainnet_def)
  have w: "writeContract sample_env rq = Inr ''0xabc''" for rq
    by (simp add: sample_env_def)
  have r: "waitForTransactionReceipt sample_env hs = Inr sample_receipt" for hs
    by (simp add: sample_env_def)
  have d: "decodeEventLog sample_env = sample_decoder"
    by (simp add: sample_env_def)
  have k: "KAIAFUN_CORE_ADDRESS sample_constants = ''0xC0''"
    by (simp add: sample_constants_def)
  have ev: "getEventFromReceipt sample_decoder (Some sample_receipt) [TradeEvent] (Some (abi_name TradeEvent))
          = Some \<lparr>eventName = ''Trade'', event_args = [(''data'', JStr ''0x02'')]\<rparr>"
    by (simp add: getEventFromReceipt_def try_decode_def sample_decoder_def
        sample_receipt_def mk_log_def TradeEvent_def)
  have m: "matches_address sample_token"
    by (simp add: matches_address_def is_hex_char_def sample_token_def)
  have b: "KaiaFunClient_buy sample_constants sample_env sample_client sample_token 0 None =
       ([WriteContract \<lparr>address = ''0xC0'', abi = [buyWithETH], functionName = ''buyWithETH'',
           args = [JStr sample_token, JBigInt 0], attached_value = Some 0\<rparr>,
         WaitForTransactionReceipt ''0xabc''],
        Inr \<lparr>trade_receipt = sample_receipt,
              tradeEvent = Some \<lparr>eventName = ''Trade'', event_args = [(''data'', JStr ''0x02'')]\<rparr>\<rparr>)"
    using g
    by (simp add: KaiaFunClient_buy_def Let_def io_bind_def io_call_def io_return_def w r d k ev)
  have s: "KaiaFunClient_sell sample_constants sample_env sample_client sample_token 0 None None =
       ([WriteContract \<lparr>address = ''0xC0'', abi = [sell], functionName = ''sell'',
           args = [JStr sample_token, JBigInt 0, JBigInt 0, JBool True], attached_value = None\<rparr>,
         WaitForTransactionReceipt ''0xabc''],
        Inr \<lparr>trade_receipt = sample_receipt,
              tradeEvent = Some \<lparr>eventName = ''Trade'', event_args = [(''data'', JStr ''0x02'')]\<rparr>\<rparr>)"
    using g
    by (simp add: KaiaFunClient_sell_def Let_def io_bind_def io_call_def io_return_def w r d k ev)
  from m b s show ?thesis by blast
qed

section \<open>Image upload\<close>

lemma uploadImage_run:
  "KaiaFunClient_uploadImage env f =
     (case http_post env (API_BASE_URL @ ''/upload?filename='' @ file_name f) (FileBody f)
             [(''Content-Type'', file_type f)] of
        NetworkFailure \<Rightarrow>
          ([HttpPost (API_BASE_URL @ ''/upload?filename='' @ file_name f) (FileBody f)
              [(''Content-Type'', file_type f)], ConsoleError ''Error:''], Inr JNull)
      | HttpResponse st d \<Rightarrow>
          if 200 \<le> st \<and> st < 300 then
            (case get_prop d ''url'' of
               Inl e \<Rightarrow> ([HttpPost (API_BASE_URL @ ''/upload?filename='' @ file_name f) (FileBody f)
                           [(''Content-Type'', file_type f)], ConsoleError ''Error:''], Inr JNull)
             | Inr v \<Rightarrow> ([HttpPost (API_BASE_URL @ ''/upload?filename='' @ file_name f) (FileBody f)
                           [(''Content-Type'', file_type f)]], Inr v))
          else ([HttpPost (API_BASE_URL @ ''/upload?filename='' @ file_name f) (FileBody f)
                  [(''Content-Type'', file_type f)], ConsoleError ''Error:''], Inr JNull))"
  by (simp add: KaiaFunClient_uploadImage_def axios_post_def io_bind_def io_call_def io_lift_def
      split: http_outcome.splits sum.splits)

text \<open>
  Claim C7, as amended. uploadImage never throws and makes exactly one POST, with no
  retry. A transport failure and a status outside 200..299 give \<^verbatim>\<open>null\<close>. On a 2xx
  response the result is the \<^verbatim>\<open>url\<close> property of the body as it is, unchecked:
  \<^verbatim>\<open>null\<close> when the body is \<^verbatim>\<open>null\<close>, \<^verbatim>\<open>undefined\<close> when the body is empty, is not
  an object or has no such property, and otherwise whatever value the property holds.
\<close>

theorem uploadImage_never_throws:
  "(let url = API_BASE_URL @ ''/upload?filename='' @ file_name f;
        headers = [(''Content-Type'', file_type f)];
        out = http_post env url (FileBody f) headers;
        run = KaiaFunClient_uploadImage env f
    in (\<forall>e. snd run \<noteq> Inl e)
       \<and> (fst run = [HttpPost url (FileBody f) headers]
           \<or> fst run = [HttpPost url (FileBody f) headers, ConsoleError ''Error:''])
       \<and> (out = NetworkFailure \<longrightarrow> snd run = Inr JNull)
       \<and> (\<forall>st d. out = HttpResponse st d \<and> \<not> (200 \<le> st \<and> st < 300) \<longrightarrow> snd run = Inr JNull)
       \<and> (\<forall>st d. out = HttpResponse st d \<and> 200 \<le> st \<and> st < 300 \<longrightarrow>
             snd run =
               Inr (case d of
                      JNull \<Rightarrow> JNull
                    | JUndefined \<Rightarrow> JNull
                    | JObj props \<Rightarrow> (case map_of props ''url'' of None \<Rightarrow> JUndefined | Some v \<Rightarrow> v)
                    | _ \<Rightarrow> JUndefined)))"
proof -
  define url where "url = API_BASE_URL @ ''/upload?filename='' @ file_name f"
  define headers where "headers = [(''Content-Type'', file_type f)]"
  define out where "out = http_post env url (FileBody f) headers"
  define run where "run = KaiaFunClient_uploadImage env f"
  note defs = url_def headers_def out_def run_def
  have a: "\<forall>e. snd run \<noteq> Inl e"
    by (simp add: defs uploadImage_run split: http_outcome.splits sum.splits)
  have b: "fst run = [HttpPost url (FileBody f) headers]
           \<or> fst run = [HttpPost url (FileBody f) headers, ConsoleError ''Error:'']"
    by (simp add: defs uploadImage_run split: http_outcome.splits sum.splits)
  have c: "out = NetworkFailure \<longrightarrow> snd run = Inr JNull"
    by (simp add: defs uploadImage_run)
  have d: "\<forall>st d. out = HttpResponse st d \<and> \<not> (200 \<le> st \<and> st < 300) \<longrightarrow> snd run = Inr JNull"
    by (auto simp add: defs uploadImage_run)
  have e: "\<forall>st d. out = HttpResponse st d \<and> 200 \<le> st \<and> st < 300 \<longrightarrow>
             snd run =
               Inr (case d of
                      JNull \<Rightarrow> JNull
                    | JUndefined \<Rightarrow> JNull
                    | JObj props \<Rightarrow> (case map_of props ''url'' of None \<Rightarrow> JUndefined | Some v \<Rightarrow> v)
                    | _ \<Rightarrow> JUndefined)"
  proof (intro allI impI)
    fix st d
    assume "out = HttpResponse st d \<and> 200 \<le> st \<and> st < 300"
    then show "snd run =
               Inr (case d of
                      JNull \<Rightarrow> JNull
                    | JUndefined \<Rightarrow> JNull
                    | JObj props \<Rightarrow> (case map_of props ''url'' of None \<Rightarrow> JUndefined | Some v \<Rightarrow> v)
                    | _ \<Rightarrow> JUndefined)"
      by (cases d) (simp_all add: defs uploadImage_run)
  qed
  from a b c d e show ?thesis
    unfolding Let_def defs by blast
qed

theorem uploadImage_never_throws_witness:
  "http_post offline_env (API_BASE_URL @ ''/upload?filename='' @ file_name sample_file)
      (FileBody sample_file) [(''Content-Type'', file_type sample_file)] = NetworkFailure
   \<and> snd (KaiaFunClient_uploadImage offline_env sample_file) = Inr JNull
   \<and> http_post failing_env (API_BASE_URL @ ''/upload?filename='' @ file_name sample_file)
      (FileBody sample_file) [(''Content-Type'', file_type sample_file)]
        = HttpResponse 500 (JStr ''Internal Server Error'')
   \<and> \<not> (200 \<le> (500::nat) \<and> (500::nat) < 300)
   \<and> snd (KaiaFunClient_uploadImage failing_env sample_file) = Inr JNull
   \<and> http_post empty_body_env (API_BASE_URL @ ''/upload?filename='' @ file_name sample_file)
      (FileBody sample_file) [(''Content-Type'', file_type sample_file)] = HttpResponse 200 (JStr [])
   \<and> 200 \<le> (200::nat) \<and> (200::nat) < 300
   \<and> snd (KaiaFunClient_uploadImage empty_body_env sample_file) = Inr JUndefined
   \<and> http_post sample_env (API_BASE_URL @ ''/upload?filename='' @ file_name sample_file)
      (FileBody sample_file) [(''Content-Type'', file_type sample_file)] = HttpResponse 200 sample_response
   \<and> snd (KaiaFunClient_uploadImage sample_env sample_file) = Inr (JStr ''https://cdn/x.png'')"
proof -
  have o: "http_post offline_env u b h = NetworkFailure" for u b h
    by (simp add: offline_env_def)
  have f: "http_post failing_env u b h = HttpResponse 500 (JStr ''Internal Server Error'')" for u b h
    by (simp add: failing_env_def)
  have e: "http_post empty_body_env u b h = HttpResponse 200 (JStr [])" for u b h
    by (simp add: empty_body_env_def)
  have s: "http_post sample_env u b h = HttpResponse 200 sample_response" for u b h
    by (simp add: sample_env_def)
  show ?thesis
    using uploadImage_never_throws [of sample_file offline_env]
      uploadImage_never_throws [of sample_file failing_env]
      uploadImage_never_throws [of sample_file empty_body_env]
      uploadImage_never_throws [of sample_file sample_env]
    by (simp add: Let_def o f e s sample_response_def)
qed

text \<open>
  The claim as written fails on a 2xx response whose body is malformed in that its
  \<^verbatim>\<open>url\<close> is not a string: the number is returned, which is neither a URL string nor
  a failure signal.
\<close>

theorem uploadImage_malformed_body_counterexample:
  "http_post odd_body_env (API_BASE_URL @ ''/upload?filename='' @ file_name sample_file)
      (FileBody sample_file) [(''Content-Type'', file_type sample_file)]
        = HttpResponse 200 (JObj [(''url'', JNum 42)])
   \<and> KaiaFunClient_uploadImage odd_body_env sample_file =
       ([HttpPost ''https://kaiafun.io/api/upload?filename=a.png'' (FileBody sample_file)
           [(''Content-Type'', ''image/png'')]], Inr (JNum 42))
   \<and> JNum 42 \<noteq> JNull \<and> JNum 42 \<noteq> JUndefined \<and> JNum 42 \<noteq> JStr ''42''"
  by (simp add: KaiaFunClient_uploadImage_def axios_post_def io_bind_def io_call_def io_lift_def
      odd_body_env_def API_BASE_URL_def sample_file_def)

section \<open>Token URL\<close>

lemma toLowerCase_char_not_upper: "\<not> is_upper (toLowerCase_char c)"
  by (simp add: is_upper_def toLowerCase_char_def upper_letters_def lower_letters_def)

text \<open>
  Claim C10. For a tool argument whose \<^verbatim>\<open>tokenAddress\<close> matches the address pattern,
  \<^verbatim>\<open>get_token_url\<close> makes no call and answers with one text block,
  \<^verbatim>\<open>Token URL: \<close> followed by the URL \<^verbatim>\<open>https://kaiafun.io/token/\<close> and the
  lower-cased address; no upper-case letter is left in the address part, whatever the
  letter case of the input.
\<close>

theorem get_token_url_lowercase:
  assumes "map_of props ''tokenAddress'' = Some (JStr a)" and "matches_address a"
  shows "get_token_url zm (JObj props) =
           ([], [\<lparr>content_type = ''text'',
                  text_of = ''Token URL: '' @ ''https://kaiafun.io/token/'' @ toLowerCase a\<rparr>])
       \<and> (\<forall>ch \<in> set (toLowerCase a). \<not> is_upper ch)"
proof -
  have "getTokenUrl_parse (JObj props) = Inr a"
    using assms by (simp add: getTokenUrl_parse_def)
  then have "get_token_url zm (JObj props) =
           ([], [\<lparr>content_type = ''text'',
                  text_of = ''Token URL: '' @ ''https://kaiafun.io/token/'' @ toLowerCase a\<rparr>])"
    by (simp add: get_token_url_def)
  moreover have "\<forall>ch \<in> set (toLowerCase a). \<not> is_upper ch"
    by (auto simp add: toLowerCase_def toLowerCase_char_not_upper)
  ultimately show ?thesis by simp
qed

theorem get_token_url_lowercase_witness:
  "map_of [(''tokenAddress'', JStr sample_token)] ''tokenAddress'' = Some (JStr sample_token)
   \<and> matches_address sample_token
   \<and> get_token_url sample_zod_message (JObj [(''tokenAddress'', JStr sample_token)]) =
       ([], [\<lparr>content_type = ''text'',
              text_of = ''Token URL: https://kaiafun.io/token/0xaaaaaaaaaaaaaaaaaaaaaaaaaaaaaaaaaaaabbcc''\<rparr>])"
proof -
  have h1: "map_of [(''tokenAddress'', JStr sample_token)] ''tokenAddress'' = Some (JStr sample_token)"
    by simp
  have h2: "matches_address sample_token"
    by (simp add: matches_address_def is_hex_char_def sample_token_def)
  have l: "toLowerCase sample_token = ''0xaaaaaaaaaaaaaaaaaaaaaaaaaaaaaaaaaaaabbcc''"
    by (simp add: toLowerCase_def toLowerCase_char_def upper_letters_def lower_letters_def
        sample_token_def)
  show ?thesis
    using h1 h2 l get_token_url_lowercase [OF h1 h2, of sample_zod_message]
    by simp
qed

text \<open>An argument that does not match the pattern is answered with an error text.\<close>

lemma get_token_url_rejects_short_address:
  "get_token_url sample_zod_message (JObj [(''tokenAddress'', JStr ''0x12'')]) =
     ([ConsoleError ''Error getting token URL:'', ConsoleError ''Full error:''],
      [\<lparr>content_type = ''text'', text_of = ''Error getting token URL: Invalid token address''\<rparr>])"
  by (simp add: get_token_url_def getTokenUrl_parse_def matches_address_def formatError_def
      or_else_def sample_zod_message_def)

section \<open>Unit conversion round trip\<close>

lemma digit_facts:
  assumes "is_digit c"
  shows "digit_val c < 10" and "digit_char (digit_val c) = c"
    and "c \<noteq> CHR ''0'' \<Longrightarrow> 0 < digit_val c" and "c \<noteq> CHR ''.''" and "c \<noteq> CHR ''-''"
  using assms by (auto simp add: is_digit_def digit_val_def digit_char_def)

lemma digit_val_zero: "digit_val (CHR ''0'') = 0"
  by (simp add: digit_val_def)

lemma is_digit_zero: "is_digit (CHR ''0'')"
  by (simp add: is_digit_def)

lemma digits_val_Nil: "digits_val [] = 0"
  by (simp add: digits_val_def)

lemma digits_val_single: "digits_val [c] = digit_val c"
  by (simp add: digits_val_def)

lemma digits_val_snoc: "digits_val (ds @ [c]) = 10 * digits_val ds + digit_val c"
  by (simp add: digits_val_def)

lemma digits_val_append: "digits_val (a @ b) = digits_val a * 10 ^ length b + digits_val b"
proof (induction b rule: rev_induct)
  case Nil
  show ?case by (simp add: digits_val_Nil)
next
  case (snoc c b)
  have "digits_val (a @ b @ [c]) = 10 * digits_val (a @ b) + digit_val c"
    using digits_val_snoc [of "a @ b" c] by simp
  with snoc show ?case
    by (simp add: digits_val_snoc algebra_simps)
qed

lemma digits_val_leading_zero: "digits_val (CHR ''0'' # ds) = digits_val ds"
  using digits_val_append [of "''0''" ds] by (simp add: digits_val_single digit_val_zero)

lemma show_nat_step:
  assumes "0 < m" and "d < 10"
  shows "show_nat (10 * m + d) = show_nat m @ [digit_char d]"
proof -
  have "\<not> 10 * m + d < 10" using assms by simp
  moreover have "(10 * m + d) div 10 = m" using assms by simp
  moreover have "(10 * m + d) mod 10 = d" using assms by simp
  ultimately show ?thesis
    by (subst show_nat.simps) simp
qed

lemma show_nat_small: "d < 10 \<Longrightarrow> show_nat d = [digit_char d]"
  by (subst show_nat.simps) simp

lemma show_nat_digits:
  "ds \<noteq> [] \<Longrightarrow> list_all is_digit ds \<Longrightarrow> hd ds \<noteq> CHR ''0''
     \<Longrightarrow> show_nat (digits_val ds) = ds \<and> 0 < digits_val ds"
proof (induction ds rule: rev_induct)
  case Nil
  then show ?case by simp
next
  case (snoc c xs)
  from snoc.prems have c: "is_digit c" by simp
  show ?case
  proof (cases "xs = []")
    case True
    with snoc.prems have "c \<noteq> CHR ''0''" by simp
    with c True show ?thesis
      by (simp add: digits_val_single show_nat_small digit_facts)
  next
    case False
    with snoc.prems have "list_all is_digit xs" "hd xs \<noteq> CHR ''0''" by simp_all
    with False snoc.IH have ih: "show_nat (digits_val xs) = xs" "0 < digits_val xs" by simp_all
    from ih c show ?thesis
      by (simp add: digits_val_snoc show_nat_step digit_facts)
  qed
qed

lemma digits_val_bound: "list_all is_digit ds \<Longrightarrow> digits_val ds < 10 ^ length ds"
proof (induction ds rule: rev_induct)
  case Nil
  then show ?case by (simp add: digits_val_Nil)
next
  case (snoc c xs)
  then have "digits_val xs < 10 ^ length xs" and "digit_val c < 10"
    by (simp_all add: digit_facts)
  then have "10 * digits_val xs + digit_val c < 10 * 10 ^ length xs"
    by linarith
  then show ?case by (simp add: digits_val_snoc)
qed

lemma fixed_digits_digits: "list_all is_digit ds \<Longrightarrow> fixed_digits (length ds) (digits_val ds) = ds"
proof (induction ds rule: rev_induct)
  case Nil
  then show ?case by simp
next
  case (snoc c xs)
  then have ih: "fixed_digits (length xs) (digits_val xs) = xs" and c: "is_digit c"
    by simp_all
  from c have "(10 * digits_val xs + digit_val c) div 10 = digits_val xs"
    and "(10 * digits_val xs + digit_val c) mod 10 = digit_val c"
    by (simp_all add: digit_facts)
  with ih c show ?case
    by (simp add: digits_val_snoc digit_facts)
qed

lemma digits_val_zeros: "digits_val (ds @ replicate j (CHR ''0'')) = digits_val ds * 10 ^ j"
proof (induction j)
  case 0
  show ?case by simp
next
  case (Suc j)
  have "ds @ replicate (Suc j) (CHR ''0'') = (ds @ replicate j (CHR ''0'')) @ [CHR ''0'']"
    by (simp add: replicate_append_same)
  then show ?case
    using Suc by (simp only: digits_val_snoc digit_val_zero) simp
qed

lemma strip_zeros:
  assumes "ds \<noteq> []" and "last ds \<noteq> CHR ''0''"
  shows "strip_trailing_zeros (ds @ replicate j (CHR ''0'')) = ds"
proof -
  have "dropWhile (\<lambda>c. c = CHR ''0'') (replicate j (CHR ''0'') @ rev ds)
          = dropWhile (\<lambda>c. c = CHR ''0'') (rev ds)"
    by (simp add: dropWhile_append)
  moreover from assms have "dropWhile (\<lambda>c. c = CHR ''0'') (rev ds) = rev ds"
    by (cases ds rule: rev_cases) simp_all
  ultimately show ?thesis
    by (simp add: strip_trailing_zeros_def)
qed

lemma strip_unchanged:
  assumes "ds \<noteq> []" and "last ds \<noteq> CHR ''0''"
  shows "strip_trailing_zeros ds = ds"
  using strip_zeros [OF assms, of 0] by simp

lemma strip_Nil: "strip_trailing_zeros [] = []"
  by (simp add: strip_trailing_zeros_def)

lemma strip_default: "strip_trailing_zeros ''0'' = []"
  by (simp add: strip_trailing_zeros_def)

lemma strip_last:
  assumes "strip_trailing_zeros x \<noteq> []"
  shows "last (strip_trailing_zeros x) \<noteq> CHR ''0''"
proof -
  define ys where "ys = dropWhile (\<lambda>c. c = CHR ''0'') (rev x)"
  from assms have ne: "ys \<noteq> []"
    by (simp add: strip_trailing_zeros_def ys_def)
  then have "hd ys \<noteq> CHR ''0''"
    unfolding ys_def using hd_dropWhile [of "\<lambda>c. c = CHR ''0''" "rev x"] by blast
  moreover have "last (rev ys) = hd ys"
    using ne by (simp add: last_rev)
  ultimately show ?thesis
    by (simp add: strip_trailing_zeros_def ys_def)
qed

lemma strip_digits:
  assumes "list_all is_digit x"
  shows "list_all is_digit (strip_trailing_zeros x)"
proof -
  have "set (dropWhile (\<lambda>c. c = CHR ''0'') (rev x)) \<subseteq> set x"
    using set_dropWhileD [of _ "\<lambda>c. c = CHR ''0''" "rev x"] by auto
  with assms show ?thesis
    by (auto simp add: strip_trailing_zeros_def list_all_iff)
qed

lemma digits_val_pos:
  assumes "ds \<noteq> []" and "list_all is_digit ds" and "last ds \<noteq> CHR ''0''"
  shows "0 < digits_val ds"
  using assms by (cases ds rule: rev_cases) (simp_all add: digits_val_snoc digit_facts)

lemma div_mod_split:
  fixes a fr P :: nat
  assumes "fr < P"
  shows "(a * P + fr) div P = a" and "(a * P + fr) mod P = fr"
  using assms by simp_all

text \<open>The integer part: leading zeros do not count.\<close>

lemma digits_val_drop_zeros: "digits_val (dropWhile (\<lambda>c. c = CHR ''0'') ip) = digits_val ip"
  by (induction ip) (simp_all add: digits_val_leading_zero)

lemma integer_text_props:
  assumes "list_all is_digit ip"
  shows "show_nat (digits_val ip) = integer_text ip"
    and "digits_val (integer_text ip) = digits_val ip"
    and "integer_text ip \<noteq> []"
    and "list_all is_digit (integer_text ip)"
    and "integer_text ip = ''0'' \<or> hd (integer_text ip) \<noteq> CHR ''0''"
proof -
  define t where "t = dropWhile (\<lambda>c. c = CHR ''0'') ip"
  have v: "digits_val t = digits_val ip"
    by (simp add: t_def digits_val_drop_zeros)
  have dt: "list_all is_digit t"
  proof -
    have "set t \<subseteq> set ip"
      unfolding t_def using set_dropWhileD [of _ "\<lambda>c. c = CHR ''0''" ip] by auto
    with assms show ?thesis by (auto simp add: list_all_iff)
  qed
  have it: "integer_text ip = (if t = [] then ''0'' else t)"
    by (simp add: integer_text_def t_def)
  have hd: "hd t \<noteq> CHR ''0''" if "t \<noteq> []"
    using that unfolding t_def using hd_dropWhile [of "\<lambda>c. c = CHR ''0''" ip] by blast
  show "show_nat (digits_val ip) = integer_text ip"
  proof (cases "t = []")
    case True
    with v have "digits_val ip = 0" by (simp add: digits_val_Nil)
    with True it show ?thesis
      by (simp add: show_nat_small digit_char_def)
  next
    case False
    with dt hd have "show_nat (digits_val t) = t"
      by (simp add: show_nat_digits)
    with False it v show ?thesis by simp
  qed
  show "digits_val (integer_text ip) = digits_val ip"
    using it v by (cases "t = []") (simp_all add: digits_val_single digit_val_zero digits_val_Nil)
  show "integer_text ip \<noteq> []"
    using it by simp
  show "list_all is_digit (integer_text ip)"
    using it dt by (simp add: is_digit_zero)
  show "integer_text ip = ''0'' \<or> hd (integer_text ip) \<noteq> CHR ''0''"
    using it hd by simp
qed

lemma integer_text_canonical:
  assumes "ip \<noteq> []" and "ip = ''0'' \<or> hd ip \<noteq> CHR ''0''"
  shows "integer_text ip = ip"
  using assms by (cases ip) (auto simp add: integer_text_def)

lemma formatEther_nat:
  "formatEther (int n) =
     show_nat (n div 10 ^ 18) @
     (if n mod 10 ^ 18 = 0 then []
      else ''.'' @ strip_trailing_zeros (fixed_digits 18 (n mod 10 ^ 18)))"
  by (simp add: formatEther_def Let_def)

lemma formatEther_parts:
  assumes ip: "list_all is_digit ip"
    and f: "list_all is_digit f" "length f \<le> 18" "f = [] \<or> last f \<noteq> CHR ''0''"
  shows "formatEther (int (digits_val (ip @ f @ replicate (18 - length f) (CHR ''0''))))
           = integer_text ip @ (if f = [] then [] else ''.'' @ f)"
proof -
  define ds where "ds = f @ replicate (18 - length f) (CHR ''0'')"
  define fr where "fr = digits_val ds"
  define a where "a = digits_val ip"
  have len: "length ds = 18"
    using f(2) by (simp add: ds_def)
  have dig: "list_all is_digit ds"
    using f(1) is_digit_zero by (auto simp add: ds_def list_all_iff)
  have "fr < 10 ^ length ds"
    unfolding fr_def using dig by (rule digits_val_bound)
  then have bound: "fr < 10 ^ 18"
    by (simp only: len)
  have whole: "digits_val (ip @ ds) = a * 10 ^ 18 + fr"
    using digits_val_append [of ip ds] by (simp only: len a_def fr_def)
  have d: "(a * 10 ^ 18 + fr) div 10 ^ 18 = a" and m: "(a * 10 ^ 18 + fr) mod 10 ^ 18 = fr"
    using bound by (rule div_mod_split)+
  have shown: "show_nat a = integer_text ip"
    unfolding a_def using ip by (rule integer_text_props(1))
  have "fixed_digits (length ds) (digits_val ds) = ds"
    using dig by (rule fixed_digits_digits)
  then have fixed: "fixed_digits 18 fr = ds"
    by (simp only: len fr_def)
  have val: "fr = digits_val f * 10 ^ (18 - length f)"
    by (simp add: fr_def ds_def digits_val_zeros)
  have shape: "formatEther (int (a * 10 ^ 18 + fr)) =
      integer_text ip @ (if fr = 0 then [] else ''.'' @ strip_trailing_zeros ds)"
    by (simp only: formatEther_nat d m shown fixed)
  have "formatEther (int (a * 10 ^ 18 + fr)) = integer_text ip @ (if f = [] then [] else ''.'' @ f)"
  proof (cases "f = []")
    case True
    then have "fr = 0"
      by (simp add: val digits_val_Nil)
    with True shape show ?thesis
      by simp
  next
    case False
    with f(3) have l: "last f \<noteq> CHR ''0''" by simp
    have "0 < digits_val f"
      using False f(1) l by (rule digits_val_pos)
    then have pos: "fr \<noteq> 0"
      by (simp add: val)
    have strip: "strip_trailing_zeros ds = f"
      unfolding ds_def using False l by (rule strip_zeros)
    from False pos shape strip show ?thesis
      by simp
  qed
  then show ?thesis
    by (simp only: whole [symmetric] ds_def)
qed

lemma digits_before_point:
  assumes "list_all is_digit a"
  shows "takeWhile (\<lambda>c. c \<noteq> CHR ''.'') (a @ ''.'' @ b) = a"
    and "dropWhile (\<lambda>c. c \<noteq> CHR ''.'') (a @ ''.'' @ b) = ''.'' @ b"
    and "takeWhile (\<lambda>c. c \<noteq> CHR ''.'') a = a"
    and "dropWhile (\<lambda>c. c \<noteq> CHR ''.'') a = []"
proof -
  have all: "\<forall>c \<in> set a. c \<noteq> CHR ''.''"
    using assms by (auto simp add: list_all_iff digit_facts)
  from all show "takeWhile (\<lambda>c. c \<noteq> CHR ''.'') (a @ ''.'' @ b) = a"
    by (simp add: takeWhile_append2)
  from all show "dropWhile (\<lambda>c. c \<noteq> CHR ''.'') (a @ ''.'' @ b) = ''.'' @ b"
    by (simp add: dropWhile_append2)
  from all show "takeWhile (\<lambda>c. c \<noteq> CHR ''.'') a = a"
    by (simp add: takeWhile_eq_all_conv)
  from all show "dropWhile (\<lambda>c. c \<noteq> CHR ''.'') a = []"
    by simp
qed

lemma point_first:
  assumes "dropWhile (\<lambda>c. c \<noteq> CHR ''.'') s \<noteq> []"
  shows "dropWhile (\<lambda>c. c \<noteq> CHR ''.'') s = ''.'' @ tl (dropWhile (\<lambda>c. c \<noteq> CHR ''.'') s)"
proof -
  from assms have "hd (dropWhile (\<lambda>c. c \<noteq> CHR ''.'') s) = CHR ''.''"
    using hd_dropWhile [of "\<lambda>c. c \<noteq> CHR ''.''" s] by simp
  with assms show ?thesis
    by (cases "dropWhile (\<lambda>c. c \<noteq> CHR ''.'') s") simp_all
qed

lemma unsigned_digits:
  assumes "list_all is_digit (takeWhile (\<lambda>c. c \<noteq> CHR ''.'') s)"
  shows "take 1 s \<noteq> ''-''"
proof (cases s)
  case Nil
  then show ?thesis by simp
next
  case (Cons c t)
  show ?thesis
  proof
    assume "take 1 s = ''-''"
    with Cons have "c = CHR ''-''" by simp
    with Cons assms have "is_digit (CHR ''-'')" by simp
    then show False by (simp add: is_digit_def)
  qed
qed

lemma strip_fraction_default:
  "strip_trailing_zeros (if rest = [] then ''0'' else tl rest) = strip_trailing_zeros (tl rest)"
  by (simp add: strip_default strip_Nil)

lemma parseEther_representable:
  assumes "representable s"
  shows "parseEther ro s =
     Inr (int (digits_val
       (takeWhile (\<lambda>c. c \<noteq> CHR ''.'') s
        @ strip_trailing_zeros (tl (dropWhile (\<lambda>c. c \<noteq> CHR ''.'') s))
        @ replicate (18 - length (strip_trailing_zeros (tl (dropWhile (\<lambda>c. c \<noteq> CHR ''.'') s))))
            (CHR ''0''))))"
proof -
  from assms have ip: "list_all is_digit (takeWhile (\<lambda>c. c \<noteq> CHR ''.'') s)"
    and f: "list_all is_digit (tl (dropWhile (\<lambda>c. c \<noteq> CHR ''.'') s))"
    and len: "length (strip_trailing_zeros (tl (dropWhile (\<lambda>c. c \<noteq> CHR ''.'') s))) \<le> 18"
    by (simp_all add: representable_def Let_def)
  have sign: "take 1 s \<noteq> ''-''"
    using ip by (rule unsigned_digits)
  show ?thesis
    unfolding parseEther_def Let_def strip_fraction_default
    using sign ip f len by simp
qed

lemma canonical_representable:
  assumes "canonical_amount s"
  shows "representable s"
proof -
  define rest where "rest = dropWhile (\<lambda>c. c \<noteq> CHR ''.'') s"
  from assms have ip: "list_all is_digit (takeWhile (\<lambda>c. c \<noteq> CHR ''.'') s)"
    and r: "rest = [] \<or> (tl rest \<noteq> [] \<and> list_all is_digit (tl rest) \<and> length (tl rest) \<le> 18
              \<and> last (tl rest) \<noteq> CHR ''0'')"
    unfolding canonical_amount_def Let_def rest_def [symmetric] by simp_all
  have "list_all is_digit (tl rest) \<and> length (strip_trailing_zeros (tl rest)) \<le> 18"
  proof (cases "rest = []")
    case True
    then show ?thesis by (simp add: strip_Nil)
  next
    case False
    with r show ?thesis by (simp add: strip_unchanged)
  qed
  with ip show ?thesis
    unfolding representable_def Let_def rest_def [symmetric] by simp
qed

lemma canonical_text_fixed:
  assumes "canonical_amount s"
  shows "canonical_text s = s"
proof -
  define ip where "ip = takeWhile (\<lambda>c. c \<noteq> CHR ''.'') s"
  define rest where "rest = dropWhile (\<lambda>c. c \<noteq> CHR ''.'') s"
  have s: "s = ip @ rest"
    by (simp add: ip_def rest_def)
  from assms have ip: "ip \<noteq> []" "ip = ''0'' \<or> hd ip \<noteq> CHR ''0''"
    and r: "rest = [] \<or> (tl rest \<noteq> [] \<and> list_all is_digit (tl rest) \<and> length (tl rest) \<le> 18
              \<and> last (tl rest) \<noteq> CHR ''0'')"
    unfolding canonical_amount_def Let_def ip_def [symmetric] rest_def [symmetric] by simp_all
  have it: "integer_text ip = ip"
    using ip by (rule integer_text_canonical)
  have ct: "canonical_text s = integer_text ip @
      (if strip_trailing_zeros (tl rest) = [] then [] else ''.'' @ strip_trailing_zeros (tl rest))"
    unfolding canonical_text_def Let_def ip_def [symmetric] rest_def [symmetric] by simp
  show ?thesis
  proof (cases "rest = []")
    case True
    with ct it s show ?thesis by (simp add: strip_Nil)
  next
    case False
    with r have f: "tl rest \<noteq> []" "last (tl rest) \<noteq> CHR ''0''" by simp_all
    then have st: "strip_trailing_zeros (tl rest) = tl rest"
      by (rule strip_unchanged)
    from False have "rest = ''.'' @ tl rest"
      unfolding rest_def by (rule point_first)
    then have "s = ip @ ''.'' @ tl rest"
      using s by simp
    with ct it st f(1) show ?thesis by simp
  qed
qed

lemma canonical_text_parts:
  assumes "representable s"
  defines "I \<equiv> integer_text (takeWhile (\<lambda>c. c \<noteq> CHR ''.'') s)"
  defines "f \<equiv> strip_trailing_zeros (tl (dropWhile (\<lambda>c. c \<noteq> CHR ''.'') s))"
  shows "canonical_text s = I @ (if f = [] then [] else ''.'' @ f)"
    and "takeWhile (\<lambda>c. c \<noteq> CHR ''.'') (canonical_text s) = I"
    and "dropWhile (\<lambda>c. c \<noteq> CHR ''.'') (canonical_text s) = (if f = [] then [] else ''.'' @ f)"
proof -
  from assms(1) have "list_all is_digit (takeWhile (\<lambda>c. c \<noteq> CHR ''.'') s)"
    by (simp add: representable_def Let_def)
  then have dI: "list_all is_digit I"
    unfolding I_def by (rule integer_text_props(4))
  show ct: "canonical_text s = I @ (if f = [] then [] else ''.'' @ f)"
    by (simp add: canonical_text_def Let_def I_def f_def)
  show "takeWhile (\<lambda>c. c \<noteq> CHR ''.'') (canonical_text s) = I"
    using digits_before_point(1) [OF dI, of f] digits_before_point(3) [OF dI]
    by (simp add: ct)
  show "dropWhile (\<lambda>c. c \<noteq> CHR ''.'') (canonical_text s) = (if f = [] then [] else ''.'' @ f)"
    using digits_before_point(2) [OF dI, of f] digits_before_point(4) [OF dI]
    by (simp add: ct)
qed

lemma canonical_text_canonical:
  assumes "representable s"
  shows "canonical_amount (canonical_text s)"
proof -
  define I where "I = integer_text (takeWhile (\<lambda>c. c \<noteq> CHR ''.'') s)"
  define f where "f = strip_trailing_zeros (tl (dropWhile (\<lambda>c. c \<noteq> CHR ''.'') s))"
  from assms have ip: "list_all is_digit (takeWhile (\<lambda>c. c \<noteq> CHR ''.'') s)"
    and f0: "list_all is_digit (tl (dropWhile (\<lambda>c. c \<noteq> CHR ''.'') s))"
    and len: "length f \<le> 18"
    by (simp_all add: representable_def Let_def f_def)
  have I: "I \<noteq> []" "list_all is_digit I" "I = ''0'' \<or> hd I \<noteq> CHR ''0''"
    unfolding I_def using ip by (rule integer_text_props(3-5))+
  have df: "list_all is_digit f"
    unfolding f_def using f0 by (rule strip_digits)
  have lf: "last f \<noteq> CHR ''0''" if "f \<noteq> []"
    using that unfolding f_def by (rule strip_last)
  have t: "takeWhile (\<lambda>c. c \<noteq> CHR ''.'') (canonical_text s) = I"
    and d: "dropWhile (\<lambda>c. c \<noteq> CHR ''.'') (canonical_text s) = (if f = [] then [] else ''.'' @ f)"
    using canonical_text_parts(2,3) [OF assms] by (simp_all add: I_def f_def)
  show ?thesis
    unfolding canonical_amount_def Let_def t d
    using I df lf len by simp
qed

lemma parseEther_canonical_text:
  assumes "representable s"
  shows "parseEther ro (canonical_text s) = parseEther ro s"
proof -
  define ip where "ip = takeWhile (\<lambda>c. c \<noteq> CHR ''.'') s"
  define I where "I = integer_text ip"
  define f where "f = strip_trailing_zeros (tl (dropWhile (\<lambda>c. c \<noteq> CHR ''.'') s))"
  from assms have dip: "list_all is_digit ip"
    by (simp add: representable_def Let_def ip_def)
  have t: "takeWhile (\<lambda>c. c \<noteq> CHR ''.'') (canonical_text s) = I"
    and d: "dropWhile (\<lambda>c. c \<noteq> CHR ''.'') (canonical_text s) = (if f = [] then [] else ''.'' @ f)"
    using canonical_text_parts(2,3) [OF assms] by (simp_all add: I_def ip_def f_def)
  have sf: "strip_trailing_zeros (tl (if f = [] then [] else ''.'' @ f)) = f"
  proof (cases "f = []")
    case True
    then show ?thesis by (simp add: strip_Nil)
  next
    case False
    then have "last f \<noteq> CHR ''0''"
      unfolding f_def by (rule strip_last)
    with False show ?thesis by (simp add: strip_unchanged)
  qed
  have rep: "representable (canonical_text s)"
    using canonical_text_canonical [OF assms] by (rule canonical_representable)
  have "parseEther ro (canonical_text s) =
      Inr (int (digits_val (I @ f @ replicate (18 - length f) (CHR ''0''))))"
    using parseEther_representable [OF rep, of ro] by (simp only: t d sf)
  moreover have "parseEther ro s =
      Inr (int (digits_val (ip @ f @ replicate (18 - length f) (CHR ''0''))))"
    using parseEther_representable [OF assms, of ro] by (simp only: ip_def f_def)
  moreover have "digits_val (I @ x) = digits_val (ip @ x)" for x
    using integer_text_props(2) [OF dip] by (simp add: digits_val_append I_def)
  ultimately show ?thesis by simp
qed

lemma format_after_parse_representable:
  assumes "representable s"
  shows "format_after_parse ro s = Inr (canonical_text s)"
proof -
  define ip where "ip = takeWhile (\<lambda>c. c \<noteq> CHR ''.'') s"
  define f where "f = strip_trailing_zeros (tl (dropWhile (\<lambda>c. c \<noteq> CHR ''.'') s))"
  from assms have dip: "list_all is_digit ip"
    and f0: "list_all is_digit (tl (dropWhile (\<lambda>c. c \<noteq> CHR ''.'') s))"
    and len: "length f \<le> 18"
    by (simp_all add: representable_def Let_def ip_def f_def)
  have df: "list_all is_digit f"
    unfolding f_def using f0 by (rule strip_digits)
  have lf: "f = [] \<or> last f \<noteq> CHR ''0''"
    unfolding f_def using strip_last by blast
  have p: "parseEther ro s = Inr (int (digits_val (ip @ f @ replicate (18 - length f) (CHR ''0''))))"
    using parseEther_representable [OF assms, of ro] by (simp only: ip_def f_def)
  have "formatEther (int (digits_val (ip @ f @ replicate (18 - length f) (CHR ''0''))))
          = integer_text ip @ (if f = [] then [] else ''.'' @ f)"
    using dip df len lf by (rule formatEther_parts)
  also have "\<dots> = canonical_text s"
    by (simp add: canonical_text_def Let_def ip_def f_def)
  finally show ?thesis
    using p by (simp add: format_after_parse_def)
qed

text \<open>
  Claim C5, as amended. For every non-negative decimal string that the unit's precision
  can represent, converting to the smallest unit and back gives the canonical string of
  the same amount: that string is canonical and converts to the same number of smallest
  units. The round trip gives back the original string exactly when the original is
  canonical, and every canonical string is representable.
\<close>

theorem format_after_parse_round_trip:
  "(representable s \<longrightarrow>
      format_after_parse ro s = Inr (canonical_text s)
      \<and> canonical_amount (canonical_text s)
      \<and> parseEther ro (canonical_text s) = parseEther ro s
      \<and> (format_after_parse ro s = Inr s \<longleftrightarrow> canonical_amount s))
   \<and> (canonical_amount s \<longrightarrow> representable s \<and> format_after_parse ro s = Inr s)"
proof (intro conjI impI)
  assume r: "representable s"
  show f: "format_after_parse ro s = Inr (canonical_text s)"
    using r by (rule format_after_parse_representable)
  show c: "canonical_amount (canonical_text s)"
    using r by (rule canonical_text_canonical)
  show "parseEther ro (canonical_text s) = parseEther ro s"
    using r by (rule parseEther_canonical_text)
  show "format_after_parse ro s = Inr s \<longleftrightarrow> canonical_amount s"
  proof
    assume "format_after_parse ro s = Inr s"
    with f have "canonical_text s = s" by simp
    with c show "canonical_amount s" by simp
  next
    assume "canonical_amount s"
    then have "canonical_text s = s" by (rule canonical_text_fixed)
    with f show "format_after_parse ro s = Inr s" by simp
  qed
next
  assume c: "canonical_amount s"
  then show r: "representable s"
    by (rule canonical_representable)
  from c have "canonical_text s = s"
    by (rule canonical_text_fixed)
  with r show "format_after_parse ro s = Inr s"
    by (simp add: format_after_parse_representable)
qed

lemma representable_examples:
  "representable ''1.5''" "representable ''1.50''" "representable ''.5''" "representable ''1.''"
  "representable ''01.5''" "representable ''1.5000000000000000000''" "representable []"
  by (simp_all add: representable_def is_digit_def strip_trailing_zeros_def)

lemma canonical_text_examples:
  "canonical_text ''1.5'' = ''1.5''" "canonical_text ''1.50'' = ''1.5''"
  "canonical_text ''.5'' = ''0.5''" "canonical_text ''1.'' = ''1''"
  "canonical_text ''01.5'' = ''1.5''" "canonical_text ''1.5000000000000000000'' = ''1.5''"
  "canonical_text [] = ''0''"
  by (simp_all add: canonical_text_def integer_text_def strip_trailing_zeros_def)

lemma canonical_amount_examples:
  "canonical_amount ''1.5''" "\<not> canonical_amount ''1.50''" "\<not> canonical_amount ''.5''"
  "\<not> canonical_amount ''1.''"
  by (simp_all add: canonical_amount_def is_digit_def)

lemma replicate_zeros_17: "replicate 17 c = [c, c, c, c, c, c, c, c, c, c, c, c, c, c, c, c, c]"
  by (simp add: numeral_eq_Suc)

lemma parseEther_examples:
  "parseEther ro ''1.5'' = Inr 1500000000000000000"
  "parseEther ro ''1.50'' = Inr 1500000000000000000"
  "parseEther ro ''.5'' = Inr 500000000000000000"
  "parseEther ro ''1.5000000000000000000'' = Inr 1500000000000000000"
  "parseEther ro ''-1.5'' = Inr (- 1500000000000000000)"
  by (simp_all add: parseEther_def is_digit_def strip_trailing_zeros_def digits_val_def
      digit_val_def replicate_zeros_17)

theorem format_after_parse_round_trip_witness:
  "representable ''1.50'' \<and> \<not> canonical_amount ''1.50''
   \<and> format_after_parse truncating_round_off ''1.50'' = Inr ''1.5''
   \<and> canonical_amount ''1.5''
   \<and> parseEther truncating_round_off ''1.5'' = parseEther truncating_round_off ''1.50''
   \<and> format_after_parse truncating_round_off ''1.5'' = Inr ''1.5''"
  using format_after_parse_round_trip [of "''1.50''" truncating_round_off]
    format_after_parse_round_trip [of "''1.5''" truncating_round_off]
    representable_examples(1,2) canonical_text_examples(1,2) canonical_amount_examples(1,2)
  by simp

text \<open>
  The claim as written fails on a representable string that is not canonical: the strings
  \<^verbatim>\<open>"1.5"\<close> and \<^verbatim>\<open>"1.50"\<close> denote the same amount, so \<^verbatim>\<open>"1.50"\<close> comes back as
  \<^verbatim>\<open>"1.5"\<close>.
\<close>

theorem format_after_parse_counterexample:
  "representable ''1.50''
   \<and> parseEther truncating_round_off ''1.50'' = Inr 1500000000000000000
   \<and> format_after_parse truncating_round_off ''1.50'' = Inr ''1.5''
   \<and> format_after_parse truncating_round_off ''1.50'' \<noteq> Inr ''1.50''"
  using format_after_parse_representable [OF representable_examples(2), of truncating_round_off]
    parseEther_examples(2) [of truncating_round_off] representable_examples(2)
    canonical_text_examples(2)
  by simp

text \<open>No formatter at all can invert the conversion on both strings.\<close>

lemma no_formatter_inverts_parseEther:
  "\<not> (fmt (parseEther ro ''1.5'') = ''1.5'' \<and> fmt (parseEther ro ''1.50'') = ''1.50'')"
  by (simp add: parseEther_examples)

text \<open>Strings with an empty integer part or an empty fraction convert as well.\<close>

lemma format_after_parse_examples:
  "format_after_parse ro ''.5'' = Inr ''0.5''"
  "format_after_parse ro ''1.'' = Inr ''1''"
  "format_after_parse ro ''01.5'' = Inr ''1.5''"
  "format_after_parse ro ''1.5000000000000000000'' = Inr ''1.5''"
  using format_after_parse_representable [OF representable_examples(3), of ro]
    format_after_parse_representable [OF representable_examples(4), of ro]
    format_after_parse_representable [OF representable_examples(5), of ro]
    format_after_parse_representable [OF representable_examples(6), of ro]
  by (simp_all add: canonical_text_examples)

end
